theory Spec2Isabelle
  imports Complex_Main
begin

section \<open>Rate limiter (src/lib/rate-limiter.ts)\<close>

text \<open>
  Timestamps are milliseconds since the epoch (\<open>Date.now()\<close>), modelled as \<open>int\<close>;
  \<open>maxRequests\<close> and \<open>windowMs\<close> come from \<open>parseInt\<close> and are modelled as \<open>int\<close>
  (the \<open>NaN\<close> that \<open>parseInt\<close> yields on a malformed variable is outside the model).
\<close>

record RateLimitRecord =
  count :: int
  resetTime :: int
  requestTimestamps :: "int list"

record RateLimitConfig =
  maxRequests :: int
  windowMs :: int

text \<open>
  The object returned by \<open>checkRateLimit\<close>. Its third field is called \<open>resetTime\<close> in
  the source; it is \<open>reportedResetTime\<close> here because the record above already owns the
  name. \<open>None\<close> stands for the \<open>NaN\<close> that \<open>undefined + windowMs\<close> gives when the
  denied branch reads \<open>requestTimestamps[0]\<close> of an empty array.
\<close>

record RateLimitResult =
  allowed :: bool
  remaining :: int
  reportedResetTime :: "int option"

type_synonym rateLimitStore = "string \<rightharpoonup> RateLimitRecord"

text \<open>Lines 92-100: the record in use after "initialize or reset if window has passed".\<close>

definition currentRecord :: "rateLimitStore \<Rightarrow> int \<Rightarrow> string \<Rightarrow> RateLimitConfig \<Rightarrow> RateLimitRecord" where
  "currentRecord store now key config =
     (case store key of
        None \<Rightarrow> \<lparr>count = 0, resetTime = now + windowMs config, requestTimestamps = []\<rparr>
      | Some record \<Rightarrow>
          if resetTime record < now
          then \<lparr>count = 0, resetTime = now + windowMs config, requestTimestamps = []\<rparr>
          else record)"

text \<open>
  Lines 102-106: the timestamps of that record that survive the filter
  \<open>timestamp > windowStart\<close>.
\<close>

definition keptTimestamps :: "rateLimitStore \<Rightarrow> int \<Rightarrow> string \<Rightarrow> RateLimitConfig \<Rightarrow> int list" where
  "keptTimestamps store now key config =
     (let record = currentRecord store now key config;
          windowStart = now - windowMs config
      in filter (\<lambda>timestamp. timestamp > windowStart) (requestTimestamps record))"

text \<open>
  \<open>checkRateLimit\<close>, lines 83-126. The clock value \<open>now\<close> read by \<open>Date.now()\<close> and the
  module-level \<open>rateLimitStore\<close> are explicit; the updated store is returned with the
  result. The record object is mutated in place, so the store always holds the record as
  it is when the function returns.
\<close>

definition checkRateLimit ::
  "rateLimitStore \<Rightarrow> int \<Rightarrow> string \<Rightarrow> RateLimitConfig \<Rightarrow> RateLimitResult \<times> rateLimitStore" where
  "checkRateLimit store now identifier config =
     (let key = identifier;
          record = currentRecord store now key config;
          kept = keptTimestamps store now key config
      in if int (length kept) \<ge> maxRequests config
         then (\<lparr>allowed = False, remaining = 0,
                 reportedResetTime = (case kept of [] \<Rightarrow> None | t # _ \<Rightarrow> Some (t + windowMs config))\<rparr>,
               store(key \<mapsto> record\<lparr>requestTimestamps := kept\<rparr>))
         else (let pushed = kept @ [now];
                   record' = record\<lparr>requestTimestamps := pushed, count := int (length pushed)\<rparr>
               in (\<lparr>allowed = True, remaining = maxRequests config - count record',
                     reportedResetTime = Some (resetTime record)\<rparr>,
                   store(key \<mapsto> record'))))"

text \<open>The \<open>setInterval\<close> sweep of lines 22-30, run at clock value \<open>now\<close>.\<close>

definition cleanup :: "rateLimitStore \<Rightarrow> int \<Rightarrow> rateLimitStore" where
  "cleanup store now =
     (\<lambda>key. case store key of
               None \<Rightarrow> None
             | Some record \<Rightarrow> if resetTime record < now then None else Some record)"

text \<open>
  A sequence of calls for one identifier and one configuration, at the given clock values
  in order. The result lists, for every call, its clock value and what it returned.
\<close>

fun checkRateLimitSeq ::
  "rateLimitStore \<Rightarrow> string \<Rightarrow> RateLimitConfig \<Rightarrow> int list \<Rightarrow> (int \<times> RateLimitResult) list \<times> rateLimitStore" where
  "checkRateLimitSeq store key config [] = ([], store)"
| "checkRateLimitSeq store key config (now # later) =
     (let (res, store') = checkRateLimit store now key config;
          (rest, store'') = checkRateLimitSeq store' key config later
      in ((now, res) # rest, store''))"

text \<open>The clock values of the allowed calls that fall in the trailing window \<open>(t - windowMs, t]\<close>.\<close>

definition allowedInWindow :: "(int \<times> RateLimitResult) list \<Rightarrow> int \<Rightarrow> int \<Rightarrow> int list" where
  "allowedInWindow results window t =
     map fst (filter (\<lambda>(now, res). allowed res \<and> t - window < now \<and> now \<le> t) results)"


section \<open>Event dispatch ledger (src/lib/event-dispatch.ts)\<close>

text \<open>
  The \<open>EventDispatch\<close> table with its composite unique key \<open>(orderId, eventName)\<close>.
  \<open>reachable\<close> is false when the ORM call throws for a reason of the store itself (the
  migration was not run, the database does not answer).
\<close>

datatype dbError = StoreUnavailable | UniqueConstraintViolation

record LedgerStore =
  reachable :: bool
  dispatchRows :: "(string \<times> string) list"

definition eventDispatch_findUnique ::
  "LedgerStore \<Rightarrow> string \<Rightarrow> string \<Rightarrow> dbError + (string \<times> string) option" where
  "eventDispatch_findUnique ledger orderId eventName =
     (if \<not> reachable ledger then Inl StoreUnavailable
      else Inr (find (\<lambda>row. row = (orderId, eventName)) (dispatchRows ledger)))"

definition eventDispatch_create ::
  "LedgerStore \<Rightarrow> string \<Rightarrow> string \<Rightarrow> dbError + LedgerStore" where
  "eventDispatch_create ledger orderId eventName =
     (if \<not> reachable ledger then Inl StoreUnavailable
      else if (orderId, eventName) \<in> set (dispatchRows ledger) then Inl UniqueConstraintViolation
      else Inr (ledger\<lparr>dispatchRows := dispatchRows ledger @ [(orderId, eventName)]\<rparr>))"

text \<open>
  \<open>hasDispatched\<close> and \<open>markDispatched\<close>, lines 20-40. An exception leaving the function
  would be an \<open>Inl\<close>; the \<open>catch\<close> blocks are the \<open>Inl\<close> cases of the store calls.
\<close>

definition hasDispatched :: "LedgerStore \<Rightarrow> string \<Rightarrow> string \<Rightarrow> dbError + bool" where
  "hasDispatched ledger orderId eventName =
     (case eventDispatch_findUnique ledger orderId eventName of
        Inr rec \<Rightarrow> Inr (rec \<noteq> None)
      | Inl _ \<Rightarrow> Inr False)"

definition markDispatched :: "LedgerStore \<Rightarrow> string \<Rightarrow> string \<Rightarrow> dbError + LedgerStore" where
  "markDispatched ledger orderId eventName =
     (case eventDispatch_create ledger orderId eventName of
        Inr ledger' \<Rightarrow> Inr ledger'
      | Inl _ \<Rightarrow> Inr ledger)"

section \<open>Analytics dispatch (src/lib/server-analytics.ts)\<close>

text \<open>
  The four environment variables, and whether a \<open>fetch\<close> to each endpoint resolves
  (with any HTTP status) or rejects with a network failure.
\<close>

record AnalyticsEnv =
  GA4_MEASUREMENT_ID :: "string option"
  GA4_API_SECRET :: "string option"
  META_PIXEL_ID :: "string option"
  META_ACCESS_TOKEN :: "string option"
  ga4FetchResolves :: bool
  metaFetchResolves :: bool

text \<open>JavaScript's \<open>!value\<close> on a \<open>string | undefined\<close>.\<close>

definition falsy :: "string option \<Rightarrow> bool" where
  "falsy v = (case v of None \<Rightarrow> True | Some s \<Rightarrow> s = [])"

text \<open>An outbound \<open>fetch\<close>: the endpoint and the transaction or event identifier sent.\<close>

datatype ExternalCall = GA4Collect string | MetaEvents string

datatype netError = NetworkFailure

definition dispatchGA4Purchase ::
  "AnalyticsEnv \<Rightarrow> ExternalCall list \<Rightarrow> string \<Rightarrow> (netError + unit) \<times> ExternalCall list" where
  "dispatchGA4Purchase env sent transaction_id =
     (if falsy (GA4_MEASUREMENT_ID env) \<or> falsy (GA4_API_SECRET env) then (Inr (), sent)
      else (if ga4FetchResolves env then Inr () else Inl NetworkFailure,
            sent @ [GA4Collect transaction_id]))"

definition dispatchMetaPurchase ::
  "AnalyticsEnv \<Rightarrow> ExternalCall list \<Rightarrow> string \<Rightarrow> (netError + unit) \<times> ExternalCall list" where
  "dispatchMetaPurchase env sent event_id =
     (if falsy (META_PIXEL_ID env) \<or> falsy (META_ACCESS_TOKEN env) then (Inr (), sent)
      else (if metaFetchResolves env then Inr () else Inl NetworkFailure,
            sent @ [MetaEvents event_id]))"

section \<open>Orders and the status route (PATCH /api/orders/[orderId])\<close>

datatype OrderStatus = PENDING | IN_DELIVERY | PAUSED | DELIVERED | FAILED
datatype PaymentStatus = PAID | UNPAID
datatype PaymentMethod = CARD | CASH

text \<open>
  A row of the order table. \<open>deliveryTime\<close> is the pair (hour, minute) that the source
  formats as \<open>HH:MM\<close>. Identifiers are the store's \<open>cuid\<close> strings.
\<close>

record Order =
  order_id :: string
  orderNumber :: int
  customerId :: string
  adminId :: string
  courierId :: "string option"
  deliveryAddress :: string
  deliveryDate :: "int option"
  deliveryTime :: "int \<times> int"
  quantity :: int
  calories :: int
  specialFeatures :: string
  paymentStatus :: PaymentStatus
  paymentMethod :: PaymentMethod
  isPrepaid :: bool
  orderStatus :: OrderStatus
  deliveredAt :: "int option"

record JWTPayload =
  user_id :: string
  role :: string

text \<open>
  The request as the handler sees it: the result of \<open>verifyToken\<close>, the route parameter,
  and the JSON body (its \<open>action\<close> field, when the body parses and has one).
\<close>

datatype Body = InvalidJson | NoAction | Action string

record PatchRequest =
  user :: "JWTPayload option"
  orderIdParam :: string
  body :: Body

text \<open>
  The responses of the handler, by error code. The Russian message texts are left out.
  A success carries \<open>updatedOrder\<close>.
\<close>

datatype Response =
    InvalidToken | InvalidJsonBody | ValidationError | NotFound
  | Forbidden | InvalidState | InvalidInput | Success Order

text \<open>\<open>updateData\<close>: the fields the handler sets before \<open>db.order.update\<close>.\<close>

record UpdateData =
  setOrderStatus :: "OrderStatus option"
  setCourierId :: "string option"
  setDeliveredAt :: "int option"

definition noUpdate :: UpdateData where
  "noUpdate = \<lparr>setOrderStatus = None, setCourierId = None, setDeliveredAt = None\<rparr>"

definition applyUpdate :: "UpdateData \<Rightarrow> Order \<Rightarrow> Order" where
  "applyUpdate u ord =
     ord\<lparr>orderStatus := (case setOrderStatus u of None \<Rightarrow> orderStatus ord | Some s \<Rightarrow> s),
         courierId := (case setCourierId u of None \<Rightarrow> courierId ord | Some c \<Rightarrow> Some c),
         deliveredAt := (case setDeliveredAt u of None \<Rightarrow> deliveredAt ord | Some t \<Rightarrow> Some t)\<rparr>"

definition order_findUnique :: "Order list \<Rightarrow> string \<Rightarrow> Order option" where
  "order_findUnique table oid = find (\<lambda>ord. order_id ord = oid) table"

definition order_update :: "Order list \<Rightarrow> string \<Rightarrow> UpdateData \<Rightarrow> Order list" where
  "order_update table oid u = map (\<lambda>ord. if order_id ord = oid then applyUpdate u ord else ord) table"

text \<open>
  The \<open>switch (action)\<close> of lines 450-496: either the response returned from inside the
  switch, or the \<open>updateData\<close> with which the handler goes on.
\<close>

definition switchAction :: "JWTPayload \<Rightarrow> Order \<Rightarrow> string \<Rightarrow> int \<Rightarrow> Response + UpdateData" where
  "switchAction usr ord action now =
     (if action = ''start_delivery'' then
        (if role usr \<noteq> ''COURIER'' then Inl Forbidden
         else if orderStatus ord \<noteq> PENDING then Inl InvalidState
         else Inr (noUpdate\<lparr>setOrderStatus := Some IN_DELIVERY, setCourierId := Some (user_id usr)\<rparr>))
      else if action = ''pause_delivery'' then
        (if role usr \<noteq> ''COURIER'' then Inl Forbidden
         else if orderStatus ord \<noteq> IN_DELIVERY then Inl InvalidState
         else Inr (noUpdate\<lparr>setOrderStatus := Some PAUSED\<rparr>))
      else if action = ''resume_delivery'' then
        (if role usr \<noteq> ''COURIER'' then Inl Forbidden
         else if orderStatus ord \<noteq> PAUSED then Inl InvalidState
         else Inr (noUpdate\<lparr>setOrderStatus := Some IN_DELIVERY\<rparr>))
      else if action = ''complete_delivery'' then
        (if role usr \<noteq> ''COURIER'' then Inl Forbidden
         else Inr (noUpdate\<lparr>setOrderStatus := Some DELIVERED, setDeliveredAt := Some now\<rparr>))
      else Inl InvalidInput)"

text \<open>\<open>UpdateOrderStatusSchema\<close>: the \<open>action\<close> enum of the validation module.\<close>

definition UpdateOrderStatusSchema :: "string list" where
  "UpdateOrderStatusSchema = [''start_delivery'', ''pause_delivery'', ''resume_delivery'', ''complete_delivery'']"

text \<open>
  What the handler works on: the order table, the ledger, and the log of outbound
  analytics calls made so far.
\<close>

record World =
  orderTable :: "Order list"
  ledger :: LedgerStore
  sent :: "ExternalCall list"

text \<open>
  The detached \<open>async\<close> block of lines 544-580, run to its end: ledger check, both
  endpoint calls under \<open>Promise.allSettled\<close> (their outcomes are dropped), then
  \<open>markDispatched\<close>. An exception out of \<open>hasDispatched\<close> or \<open>markDispatched\<close> would
  end the block in its \<open>catch\<close>.
\<close>

definition dispatchOrderPaid :: "AnalyticsEnv \<Rightarrow> World \<Rightarrow> string \<Rightarrow> World" where
  "dispatchOrderPaid env w oid =
     (let eventName = ''order_paid''
      in case hasDispatched (ledger w) oid eventName of
           Inl _ \<Rightarrow> w
         | Inr already \<Rightarrow>
             if \<not> already then
               (let (r1, sent1) = dispatchGA4Purchase env (sent w) oid;
                    (r2, sent2) = dispatchMetaPurchase env sent1 oid
                in case markDispatched (ledger w) oid eventName of
                     Inl _ \<Rightarrow> w\<lparr>sent := sent2\<rparr>
                   | Inr ledger' \<Rightarrow> w\<lparr>ledger := ledger', sent := sent2\<rparr>)
             else w)"

text \<open>
  \<open>PATCH\<close>, lines 405-595, at clock value \<open>now\<close>. The order store is taken to answer
  (\<open>findUnique\<close> and \<open>update\<close> do not throw) and the audit log write to succeed; the
  detached dispatch is run to completion before the handler's result is observed.
\<close>

definition PATCH :: "AnalyticsEnv \<Rightarrow> int \<Rightarrow> PatchRequest \<Rightarrow> World \<Rightarrow> Response \<times> World" where
  "PATCH env now request w =
     (case user request of
        None \<Rightarrow> (InvalidToken, w)
      | Some usr \<Rightarrow>
          (case body request of
             InvalidJson \<Rightarrow> (InvalidJsonBody, w)
           | NoAction \<Rightarrow> (ValidationError, w)
           | Action action \<Rightarrow>
               if action \<notin> set UpdateOrderStatusSchema then (ValidationError, w)
               else
                 (case order_findUnique (orderTable w) (orderIdParam request) of
                    None \<Rightarrow> (NotFound, w)
                  | Some ord \<Rightarrow>
                      (case switchAction usr ord action now of
                         Inl response \<Rightarrow> (response, w)
                       | Inr updateData \<Rightarrow>
                           (let table' = order_update (orderTable w) (orderIdParam request) updateData;
                                updatedOrder = applyUpdate updateData ord;
                                w' = w\<lparr>orderTable := table'\<rparr>;
                                shouldDispatch =
                                  (paymentStatus updatedOrder = PAID \<or>
                                   (orderStatus updatedOrder = DELIVERED \<and> paymentMethod updatedOrder = CASH));
                                w'' = (if shouldDispatch then dispatchOrderPaid env w' (order_id updatedOrder) else w')
                            in (Success updatedOrder, w''))))))"

text \<open>A sequence of requests handled one after the other, each at its own clock value.\<close>

fun PATCHSeq :: "AnalyticsEnv \<Rightarrow> (int \<times> PatchRequest) list \<Rightarrow> World \<Rightarrow> Response list \<times> World" where
  "PATCHSeq env [] w = ([], w)"
| "PATCHSeq env ((now, request) # later) w =
     (let (response, w') = PATCH env now request w;
          (responses, w'') = PATCHSeq env later w'
      in (response # responses, w''))"


section \<open>Auto order scheduler (server.ts)\<close>

text \<open>
  A \<open>Date\<close> is its millisecond timestamp. The server's time zone is taken to have a fixed
  offset \<open>tzOffset\<close> (milliseconds east of UTC, no daylight saving), so that
  \<open>setDate(getDate() + n)\<close> adds \<open>n\<close> times 24 hours and \<open>getDay()\<close> is the weekday of the
  shifted timestamp (1 January 1970 was a Thursday, day 4). In a zone with daylight
  saving \<open>setDate\<close> steps a calendar day, which is 23 or 25 hours twice a year; every
  statement below about dates is a statement for a fixed-offset zone.
\<close>

definition msPerDay :: int where
  "msPerDay = 1000 * 60 * 60 * 24"

definition getDay :: "int \<Rightarrow> int \<Rightarrow> int" where
  "getDay tzOffset date = ((date + tzOffset) div msPerDay + 4) mod 7"

definition addDays :: "int \<Rightarrow> int \<Rightarrow> int" where
  "addDays date n = date + n * msPerDay"

definition getDayOfWeek :: "int \<Rightarrow> int \<Rightarrow> string" where
  "getDayOfWeek tzOffset date =
     (let days = [''sunday'', ''monday'', ''tuesday'', ''wednesday'', ''thursday'', ''friday'', ''saturday'']
      in days ! nat (getDay tzOffset date))"

text \<open>
  \<open>generateDeliveryTime\<close>. The two integers \<open>Math.floor(Math.random() * 3)\<close> and
  \<open>Math.floor(Math.random() * 60)\<close> are computed by the runtime in floating point; they
  are taken as given (\<open>hourDraw\<close>, \<open>minuteDraw\<close>) and not recomputed from the random
  value. The result is the pair (hour, minute).
\<close>

definition generateDeliveryTime :: "int \<Rightarrow> int \<Rightarrow> int \<times> int" where
  "generateDeliveryTime hourDraw minuteDraw = (11 + hourDraw, minuteDraw)"

text \<open>\<open>has30DaysPassed\<close>, with the clock value that \<open>new Date()\<close> reads as \<open>now\<close>.\<close>

definition has30DaysPassed :: "int \<Rightarrow> int \<Rightarrow> bool" where
  "has30DaysPassed now date =
     (let daysDiff = (now - date) div (1000 * 60 * 60 * 24)
      in daysDiff \<ge> 30)"

record ClientDeliveryDays =
  monday :: bool
  tuesday :: bool
  wednesday :: bool
  thursday :: bool
  friday :: bool
  saturday :: bool
  sunday :: bool

text \<open>\<open>client.deliveryDays[dayOfWeek]\<close>: a property read by name, falsy for any other name.\<close>

definition deliveryDayFlag :: "ClientDeliveryDays \<Rightarrow> string \<Rightarrow> bool" where
  "deliveryDayFlag days dayOfWeek =
     (if dayOfWeek = ''monday'' then monday days
      else if dayOfWeek = ''tuesday'' then tuesday days
      else if dayOfWeek = ''wednesday'' then wednesday days
      else if dayOfWeek = ''thursday'' then thursday days
      else if dayOfWeek = ''friday'' then friday days
      else if dayOfWeek = ''saturday'' then saturday days
      else if dayOfWeek = ''sunday'' then sunday days
      else False)"

text \<open>A row of the customer table, with the columns the scheduler reads.\<close>

record Customer =
  customer_id :: string
  name :: string
  phone :: string
  address :: string
  preferences :: "string option"
  orderPattern :: "string option"
  isActive :: bool
  createdAt :: int
  updatedAt :: "int option"

record Admin =
  admin_id :: string
  admin_role :: string

text \<open>The \<open>ClientData\<close> interface of lines 49-61.\<close>

record ClientData =
  client_id :: string
  client_name :: string
  client_phone :: string
  client_address :: string
  client_calories :: int
  client_specialFeatures :: string
  client_deliveryDays :: ClientDeliveryDays
  client_autoOrdersEnabled :: bool
  client_isActive :: bool
  client_createdAt :: int
  client_lastAutoOrderCheck :: "int option"

record Db =
  customers :: "Customer list"
  admins :: "Admin list"
  orders :: "Order list"

text \<open>
  What the scheduler cannot compute: the time zone, the two floored random draws of
  \<open>generateDeliveryTime\<close> and the identifier the store gives a new row (both indexed by
  the number of rows the order table holds at that moment), and which store calls throw. A fault is keyed by the
  customer being processed (and the delivery date, for the calls inside the loop).
\<close>

record SchedulerEnv =
  tzOffset :: int
  random :: "nat \<Rightarrow> int \<times> int"
  cuid :: "nat \<Rightarrow> string"
  customerFindManyFails :: bool
  customerFindUniqueFails :: "string \<Rightarrow> bool"
  adminFindFirstFails :: "string \<Rightarrow> bool"
  orderInsertFails :: "string \<Rightarrow> int \<Rightarrow> bool"
  customerUpdateFails :: "string \<Rightarrow> bool"

text \<open>
  \<open>db.order.findFirst({orderBy: {orderNumber: 'desc'}})\<close> followed by
  \<open>lastOrder ? lastOrder.orderNumber + 1 : 1\<close>.
\<close>

definition lastOrderNumber :: "Order list \<Rightarrow> int option" where
  "lastOrderNumber table =
     (case table of
        [] \<Rightarrow> None
      | ord # rest \<Rightarrow> Some (fold (\<lambda>x m. max (orderNumber x) m) rest (orderNumber ord)))"

definition nextOrderNumber :: "Order list \<Rightarrow> int" where
  "nextOrderNumber table = (case lastOrderNumber table of None \<Rightarrow> 1 | Some n \<Rightarrow> n + 1)"

text \<open>The row written by \<open>db.order.create\<close> at lines 102-117.\<close>

definition newAutoOrder :: "SchedulerEnv \<Rightarrow> ClientData \<Rightarrow> Customer \<Rightarrow> Admin \<Rightarrow> int \<Rightarrow> Order list \<Rightarrow> Order" where
  "newAutoOrder env client dbClient defaultAdmin currentDate table =
     \<lparr>order_id = cuid env (length table),
      orderNumber = nextOrderNumber table,
      customerId = customer_id dbClient,
      adminId = admin_id defaultAdmin,
      courierId = None,
      deliveryAddress = client_address client,
      deliveryDate = Some currentDate,
      deliveryTime = (case random env (length table) of
                        (hourDraw, minuteDraw) \<Rightarrow> generateDeliveryTime hourDraw minuteDraw),
      quantity = 1,
      calories = client_calories client,
      specialFeatures = client_specialFeatures client,
      paymentStatus = UNPAID,
      paymentMethod = CASH,
      isPrepaid = False,
      orderStatus = PENDING,
      deliveredAt = None\<rparr>"

text \<open>
  The body of the \<open>while\<close> loop, lines 91-135, for one \<open>currentDate\<close>. A throwing
  \<open>findFirst\<close> or \<open>create\<close> is caught inside the body: nothing is written and the
  loop goes on.
\<close>

definition loopBody ::
  "SchedulerEnv \<Rightarrow> ClientData \<Rightarrow> Customer \<Rightarrow> Admin \<Rightarrow> int \<Rightarrow> Db \<times> Order list \<Rightarrow> Db \<times> Order list" where
  "loopBody env client dbClient defaultAdmin currentDate state =
     (case state of (db, createdOrders) \<Rightarrow>
        (let dayOfWeek = getDayOfWeek (tzOffset env) currentDate
         in if deliveryDayFlag (client_deliveryDays client) dayOfWeek then
              (if orderInsertFails env (client_id client) currentDate then (db, createdOrders)
               else (let newOrder = newAutoOrder env client dbClient defaultAdmin currentDate (orders db)
                     in (db\<lparr>orders := orders db @ [newOrder]\<rparr>, createdOrders @ [newOrder])))
            else (db, createdOrders)))"

text \<open>The \<open>while (currentDate <= endDate)\<close> loop of lines 90-138.\<close>

function createLoop ::
  "SchedulerEnv \<Rightarrow> ClientData \<Rightarrow> Customer \<Rightarrow> Admin \<Rightarrow> int \<Rightarrow> int \<Rightarrow> Db \<Rightarrow> Order list \<Rightarrow> Order list \<times> Db" where
  "createLoop env client dbClient defaultAdmin endDate currentDate db createdOrders =
     (if currentDate \<le> endDate then
        (case loopBody env client dbClient defaultAdmin currentDate (db, createdOrders) of
           (db', createdOrders') \<Rightarrow>
             createLoop env client dbClient defaultAdmin endDate (addDays currentDate 1) db' createdOrders')
      else (createdOrders, db))"
  by pat_completeness auto
termination
  by (relation "measure (\<lambda>(env, client, dbClient, defaultAdmin, endDate, currentDate, db, createdOrders).
                          nat (endDate + 1 - currentDate))")
     (auto simp: addDays_def msPerDay_def)

declare createLoop.simps [simp del]

text \<open>\<open>createAutoOrdersForClient\<close>, lines 63-144.\<close>

definition createAutoOrdersForClient ::
  "SchedulerEnv \<Rightarrow> Db \<Rightarrow> ClientData \<Rightarrow> int \<Rightarrow> int \<Rightarrow> Order list \<times> Db" where
  "createAutoOrdersForClient env db client startDate endDate =
     (if customerFindUniqueFails env (client_id client) then ([], db)
      else
        (case find (\<lambda>c. customer_id c = client_id client) (customers db) of
           None \<Rightarrow> ([], db)
         | Some dbClient \<Rightarrow>
             (if adminFindFirstFails env (client_id client) then ([], db)
              else
                (case find (\<lambda>a. admin_role a = ''SUPER_ADMIN'') (admins db) of
                   None \<Rightarrow> ([], db)
                 | Some defaultAdmin \<Rightarrow>
                     createLoop env client dbClient defaultAdmin endDate startDate db []))))"

text \<open>\<open>updateClientLastCheck\<close>, lines 146-155, at clock value \<open>now\<close>.\<close>

definition updateClientLastCheck :: "SchedulerEnv \<Rightarrow> int \<Rightarrow> Db \<Rightarrow> string \<Rightarrow> Db" where
  "updateClientLastCheck env now db clientId =
     (if customerUpdateFails env clientId then db
      else db\<lparr>customers :=
                map (\<lambda>c. if customer_id c = clientId then c\<lparr>updatedAt := Some now\<rparr> else c) (customers db)\<rparr>)"

text \<open>The eligibility filter of lines 174-188.\<close>

definition isEligible :: "int \<Rightarrow> Customer \<Rightarrow> bool" where
  "isEligible now client =
     (let createdDate = createdAt client;
          lastCheck = (case updatedAt client of Some u \<Rightarrow> u | None \<Rightarrow> createdDate);
          daysSinceCreation = has30DaysPassed now createdDate;
          daysSinceLastCheck = has30DaysPassed now lastCheck
      in daysSinceCreation \<or> daysSinceLastCheck)"

text \<open>Lines 202-223: the delivery days the scheduler derives from \<open>orderPattern\<close>.\<close>

definition resolveDeliveryDays :: "string option \<Rightarrow> ClientDeliveryDays" where
  "resolveDeliveryDays pattern =
     (if pattern = Some ''daily''
      then \<lparr>monday = True, tuesday = True, wednesday = True, thursday = True,
            friday = True, saturday = True, sunday = True\<rparr>
      else \<lparr>monday = False, tuesday = False, wednesday = False, thursday = False,
            friday = False, saturday = False, sunday = False\<rparr>)"

text \<open>Lines 225-237.\<close>

definition toClientData :: "Customer \<Rightarrow> ClientData" where
  "toClientData client =
     \<lparr>client_id = customer_id client,
      client_name = name client,
      client_phone = phone client,
      client_address = address client,
      client_calories = 2000,
      client_specialFeatures = (case preferences client of None \<Rightarrow> [] | Some p \<Rightarrow> p),
      client_deliveryDays = resolveDeliveryDays (orderPattern client),
      client_autoOrdersEnabled = True,
      client_isActive = isActive client,
      client_createdAt = createdAt client,
      client_lastAutoOrderCheck = updatedAt client\<rparr>"

text \<open>
  The body of the \<open>for\<close> loop of lines 200-253 for one client of the snapshot, and the loop
  itself. The second component is \<open>totalOrdersCreated\<close>.
\<close>

definition processClient :: "SchedulerEnv \<Rightarrow> int \<Rightarrow> Customer \<Rightarrow> Db \<times> nat \<Rightarrow> Db \<times> nat" where
  "processClient env today client acc =
     (case acc of (db, totalOrdersCreated) \<Rightarrow>
        (let clientData = toClientData client;
             startDate = today;
             endDate = addDays today 30;
             (clientOrders, db') = createAutoOrdersForClient env db clientData startDate endDate;
             db'' = updateClientLastCheck env today db' (customer_id client)
         in (db'', totalOrdersCreated + length clientOrders)))"

fun processClients :: "SchedulerEnv \<Rightarrow> int \<Rightarrow> Customer list \<Rightarrow> Db \<times> nat \<Rightarrow> Db \<times> nat" where
  "processClients env today [] acc = acc"
| "processClients env today (client # rest) acc =
     processClients env today rest (processClient env today client acc)"

text \<open>
  \<open>runAutoOrderScheduler\<close>, lines 158-260. One run reads the clock as \<open>today\<close>; the later
  \<open>new Date()\<close> reads of the same run (in \<open>has30DaysPassed\<close> and in
  \<open>updateClientLastCheck\<close>) are taken to return the same value.
\<close>

definition runAutoOrderScheduler :: "SchedulerEnv \<Rightarrow> int \<Rightarrow> Db \<Rightarrow> Db \<times> nat" where
  "runAutoOrderScheduler env today db =
     (if customerFindManyFails env then (db, 0)
      else (let allClients = filter isActive (customers db);
                eligibleClients = filter (isEligible today) allClients
            in if length eligibleClients = 0 then (db, 0)
               else processClients env today eligibleClients (db, 0)))"

section \<open>Concrete inputs\<close>

text \<open>An order, a courier's and an administrator's request, and a world holding that order.\<close>

definition exampleOrder :: "OrderStatus \<Rightarrow> Order" where
  "exampleOrder status =
     \<lparr>order_id = ''ord1'', orderNumber = 7, customerId = ''cust1'', adminId = ''adm1'',
      courierId = None, deliveryAddress = ''Tashkent'', deliveryDate = None,
      deliveryTime = (12, 0), quantity = 1, calories = 2000, specialFeatures = [],
      paymentStatus = UNPAID, paymentMethod = CASH, isPrepaid = False,
      orderStatus = status, deliveredAt = None\<rparr>"

definition exampleWorld :: "OrderStatus \<Rightarrow> World" where
  "exampleWorld status =
     \<lparr>orderTable = [exampleOrder status],
      ledger = \<lparr>reachable = True, dispatchRows = []\<rparr>,
      sent = []\<rparr>"

definition courierRequest :: "string \<Rightarrow> PatchRequest" where
  "courierRequest action =
     \<lparr>user = Some \<lparr>user_id = ''courier1'', role = ''COURIER''\<rparr>,
      orderIdParam = ''ord1'', body = Action action\<rparr>"

definition adminRequest :: "string \<Rightarrow> PatchRequest" where
  "adminRequest action =
     \<lparr>user = Some \<lparr>user_id = ''admin1'', role = ''SUPER_ADMIN''\<rparr>,
      orderIdParam = ''ord1'', body = Action action\<rparr>"

text \<open>Both endpoints configured; the first one's \<open>fetch\<close> rejects.\<close>

definition exampleAnalyticsEnv :: AnalyticsEnv where
  "exampleAnalyticsEnv =
     \<lparr>GA4_MEASUREMENT_ID = Some ''G-1'', GA4_API_SECRET = Some ''s'',
      META_PIXEL_ID = Some ''p'', META_ACCESS_TOKEN = Some ''t'',
      ga4FetchResolves = False, metaFetchResolves = True\<rparr>"

text \<open>
  The limiter's default configuration for the authentication routes, five requests in
  fifteen minutes, and a store holding one client's record with five timestamps.
\<close>

definition exampleConfig :: RateLimitConfig where
  "exampleConfig = \<lparr>maxRequests = 5, windowMs = 900000\<rparr>"

definition exampleStore :: rateLimitStore where
  "exampleStore = [''ip'' \<mapsto> \<lparr>count = 5, resetTime = 900000, requestTimestamps = [0, 1, 2, 3, 4]\<rparr>]"

text \<open>
  The store a client reaches from an empty one with that configuration by calls at 0 and
  at 899996 to 900000: five timestamps, all at most four milliseconds old at 900000.
\<close>

definition exampleLateStore :: rateLimitStore where
  "exampleLateStore =
     [''ip'' \<mapsto> \<lparr>count = 5, resetTime = 900000,
                   requestTimestamps = [899996, 899997, 899998, 899999, 900000]\<rparr>]"

text \<open>
  A scheduler run at \<open>exampleToday\<close> in a zone five hours east of UTC, with no faults. The
  store holds one active customer created 31 days before the run and never updated, a
  \<open>SUPER_ADMIN\<close>, and one earlier order with number 7.
\<close>

definition exampleToday :: int where
  "exampleToday = 1762041600000"

definition exampleSchedulerEnv :: SchedulerEnv where
  "exampleSchedulerEnv =
     \<lparr>tzOffset = 18000000,
      random = (\<lambda>n. (0, 0)),
      cuid = (\<lambda>n. ''order-'' @ replicate n (CHR ''i'')),
      customerFindManyFails = False,
      customerFindUniqueFails = (\<lambda>c. False),
      adminFindFirstFails = (\<lambda>c. False),
      orderInsertFails = (\<lambda>c d. False),
      customerUpdateFails = (\<lambda>c. False)\<rparr>"

definition exampleCustomer :: "string option \<Rightarrow> Customer" where
  "exampleCustomer pattern =
     \<lparr>customer_id = ''cust1'', name = ''Ali'', phone = ''+998900000000'', address = ''Tashkent'',
      preferences = None, orderPattern = pattern, isActive = True,
      createdAt = exampleToday - 31 * msPerDay, updatedAt = None\<rparr>"

definition exampleDb :: "string option \<Rightarrow> Db" where
  "exampleDb pattern =
     \<lparr>customers = [exampleCustomer pattern],
      admins = [\<lparr>admin_id = ''adm1'', admin_role = ''SUPER_ADMIN''\<rparr>],
      orders = [exampleOrder DELIVERED]\<rparr>"





section \<open>Properties of the auto order scheduler\<close>



lemma loopBody_customers [simp]:
  "customers (fst (loopBody env client dbClient defaultAdmin currentDate (db, createdOrders))) = customers db"
  "admins (fst (loopBody env client dbClient defaultAdmin currentDate (db, createdOrders))) = admins db"
  by (simp_all add: loopBody_def Let_def)

lemma createLoop_customers:
  "customers (snd (createLoop env client dbClient defaultAdmin endDate currentDate db createdOrders)) = customers db
   \<and> admins (snd (createLoop env client dbClient defaultAdmin endDate currentDate db createdOrders)) = admins db"
proof (induction env client dbClient defaultAdmin endDate currentDate db createdOrders rule: createLoop.induct)
  case (1 env client dbClient defaultAdmin endDate currentDate db createdOrders)
  show ?case
  proof (cases "currentDate \<le> endDate")
    case True
    obtain db' created' where b: "loopBody env client dbClient defaultAdmin currentDate (db, createdOrders) = (db', created')"
      by (cases "loopBody env client dbClient defaultAdmin currentDate (db, createdOrders)")
    have c: "customers db' = customers db" "admins db' = admins db"
      using loopBody_customers [of env client dbClient defaultAdmin currentDate db createdOrders] b by simp_all
    show ?thesis
      using "1.IH" [OF True b [symmetric]] True b c
      by (simp add: createLoop.simps [of env client dbClient defaultAdmin endDate currentDate])
  next
    case False
    then show ?thesis
      by (simp add: createLoop.simps [of env client dbClient defaultAdmin endDate currentDate])
  qed
qed







lemma addDays_0 [simp]: "addDays d 0 = d"
  by (simp add: addDays_def)






lemma no_flag:
  "pattern \<noteq> Some ''daily'' \<Longrightarrow> \<not> deliveryDayFlag (resolveDeliveryDays pattern) dayOfWeek"
  by (simp add: deliveryDayFlag_def resolveDeliveryDays_def)







lemma createAutoOrdersForClient_admins [simp]:
  "admins (snd (createAutoOrdersForClient env db client startDate endDate)) = admins db"
  by (simp add: createAutoOrdersForClient_def createLoop_customers split: option.splits)


lemma updateClientLastCheck_orders [simp]:
  "orders (updateClientLastCheck env now db clientId) = orders db"
  "admins (updateClientLastCheck env now db clientId) = admins db"
  by (simp_all add: updateClientLastCheck_def)













text \<open>
  Claim C1, evaluated. One run for an active customer with pattern \<open>daily\<close>, created 31
  days before the run and never checked, with a \<open>SUPER_ADMIN\<close> present and 7 as the
  greatest earlier order number. The loop \<open>while (currentDate <= endDate)\<close> runs from
  \<open>today\<close> to \<open>today + 30 days\<close>, both included: the run creates 31 orders, not 30. They
  are numbered 8 to 38 without a gap, one for each of the 31 dates, each \<open>PENDING\<close>,
  \<open>UNPAID\<close>, \<open>CASH\<close> and not prepaid.
\<close>

theorem daily_customer_gets_31_orders:
  "snd (runAutoOrderScheduler exampleSchedulerEnv exampleToday (exampleDb (Some ''daily''))) = 31
   \<and> map orderNumber (orders (fst (runAutoOrderScheduler exampleSchedulerEnv exampleToday (exampleDb (Some ''daily'')))))
       = [7, 8, 9, 10, 11, 12, 13, 14, 15, 16, 17, 18, 19, 20, 21, 22, 23, 24, 25, 26, 27, 28, 29, 30,
          31, 32, 33, 34, 35, 36, 37, 38]
   \<and> map deliveryDate (drop 1 (orders (fst (runAutoOrderScheduler exampleSchedulerEnv exampleToday (exampleDb (Some ''daily''))))))
       = map (\<lambda>i. Some (exampleToday + i * msPerDay)) [0 ..< 31]
   \<and> list_all (\<lambda>ord. orderStatus ord = PENDING \<and> paymentStatus ord = UNPAID
                      \<and> paymentMethod ord = CASH \<and> isPrepaid ord = False
                      \<and> customerId ord = ''cust1'')
        (drop 1 (orders (fst (runAutoOrderScheduler exampleSchedulerEnv exampleToday (exampleDb (Some ''daily''))))))"
  by code_simp

text \<open>
  Claim C2, evaluated. \<open>daily\<close> resolves to all seven days and an unset pattern to none;
  but \<open>every_other_day_even\<close> and \<open>every_other_day_odd\<close>, which the customer schema
  accepts, resolve to no day either: an eligible customer with pattern
  \<open>every_other_day_even\<close> gets no order at all from a run.
\<close>

theorem named_patterns_resolve_to_no_days:
  "resolveDeliveryDays (Some ''daily'')
     = \<lparr>monday = True, tuesday = True, wednesday = True, thursday = True,
        friday = True, saturday = True, sunday = True\<rparr>
   \<and> resolveDeliveryDays None
     = \<lparr>monday = False, tuesday = False, wednesday = False, thursday = False,
        friday = False, saturday = False, sunday = False\<rparr>
   \<and> resolveDeliveryDays (Some ''every_other_day_even'')
     = \<lparr>monday = False, tuesday = False, wednesday = False, thursday = False,
        friday = False, saturday = False, sunday = False\<rparr>
   \<and> resolveDeliveryDays (Some ''every_other_day_odd'')
     = \<lparr>monday = False, tuesday = False, wednesday = False, thursday = False,
        friday = False, saturday = False, sunday = False\<rparr>
   \<and> isEligible exampleToday (exampleCustomer (Some ''every_other_day_even''))
   \<and> snd (runAutoOrderScheduler exampleSchedulerEnv exampleToday (exampleDb (Some ''every_other_day_even''))) = 0
   \<and> orders (fst (runAutoOrderScheduler exampleSchedulerEnv exampleToday (exampleDb (Some ''every_other_day_even''))))
     = orders (exampleDb (Some ''every_other_day_even''))"
  by code_simp

section \<open>Properties of the rate limiter\<close>

lemma checkRateLimit_denied:
  assumes "maxRequests config \<le> int (length (keptTimestamps store now key config))"
  shows "checkRateLimit store now key config =
           (\<lparr>allowed = False, remaining = 0,
             reportedResetTime = (case keptTimestamps store now key config of
                                    [] \<Rightarrow> None | t # _ \<Rightarrow> Some (t + windowMs config))\<rparr>,
            store(key \<mapsto> (currentRecord store now key config)
                             \<lparr>requestTimestamps := keptTimestamps store now key config\<rparr>))"
  using assms by (simp add: checkRateLimit_def Let_def)

lemma checkRateLimit_allowed:
  assumes "int (length (keptTimestamps store now key config)) < maxRequests config"
  shows "checkRateLimit store now key config =
           (\<lparr>allowed = True,
             remaining = maxRequests config - (int (length (keptTimestamps store now key config)) + 1),
             reportedResetTime = Some (resetTime (currentRecord store now key config))\<rparr>,
            store(key \<mapsto> (currentRecord store now key config)
                             \<lparr>requestTimestamps := keptTimestamps store now key config @ [now],
                               count := int (length (keptTimestamps store now key config)) + 1\<rparr>))"
  using assms by (simp add: checkRateLimit_def Let_def add.commute)

lemma allowed_iff:
  "allowed (fst (checkRateLimit store now key config))
     \<longleftrightarrow> int (length (keptTimestamps store now key config)) < maxRequests config"
  by (cases "int (length (keptTimestamps store now key config)) < maxRequests config")
     (simp_all add: checkRateLimit_allowed checkRateLimit_denied)

lemma kept_in_window: "t \<in> set (keptTimestamps store now key config) \<Longrightarrow> now - windowMs config < t"
  by (simp add: keptTimestamps_def Let_def)

lemma kept_of_live_record:
  "store key = Some r \<Longrightarrow> \<not> resetTime r < now \<Longrightarrow>
   keptTimestamps store now key config = filter (\<lambda>t. now - windowMs config < t) (requestTimestamps r)"
  by (simp add: keptTimestamps_def currentRecord_def Let_def)

lemma kept_of_new_record:
  "store key = None \<or> (\<exists>r. store key = Some r \<and> resetTime r < now) \<Longrightarrow>
   keptTimestamps store now key config = []"
  by (auto simp add: keptTimestamps_def currentRecord_def Let_def)

text \<open>
  The periodic sweep deletes exactly the records that the next call would replace by an
  empty one, so a sweep before a call does not change what the call returns.
\<close>

lemma cleanup_before_call:
  assumes "swept \<le> now"
  shows "fst (checkRateLimit (cleanup store swept) now key config)
           = fst (checkRateLimit store now key config)"
proof -
  have "currentRecord (cleanup store swept) now key config = currentRecord store now key config"
    using assms by (auto simp add: currentRecord_def cleanup_def split: option.splits)
  then show ?thesis
    by (simp add: checkRateLimit_def keptTimestamps_def Let_def)
qed

text \<open>Six calls of a client without a record, the sixth inside the window of the first.\<close>

lemma six_requests:
  fixes t1 t2 t3 t4 t5 t6 :: int
  assumes fresh: "store key = None" and five: "maxRequests config = 5"
    and ord: "t1 \<le> t2" "t2 \<le> t3" "t3 \<le> t4" "t4 \<le> t5" "t5 \<le> t6"
    and within: "t6 - windowMs config < t1"
  shows "map (\<lambda>(now, res). allowed res) (fst (checkRateLimitSeq store key config [t1, t2, t3, t4, t5, t6]))
           = [True, True, True, True, True, False]
       \<and> map (\<lambda>(now, res). remaining res) (fst (checkRateLimitSeq store key config [t1, t2, t3, t4, t5, t6]))
           = [4, 3, 2, 1, 0, 0]
       \<and> reportedResetTime (snd (last (fst (checkRateLimitSeq store key config [t1, t2, t3, t4, t5, t6]))))
           = Some (t1 + windowMs config)"
  using assms
  by (simp add: checkRateLimit_def keptTimestamps_def currentRecord_def Let_def)

text \<open>
  Claim C7, evaluated. A client's record holds the five timestamps 899996 to 900000, as
  after calls at 0 and at 899996 to 900000 with \<open>maxRequests = 5\<close> and a window of 900000
  ms. At \<open>now = 900001\<close> none of the five is older than \<open>now - windowMs\<close>: all five pass the
  window filter, so by the claim the call is denied with reset time 899996 + 900000. The
  code instead finds \<open>resetTime < now\<close>, replaces the record by an empty one, allows the
  call and reports \<open>remaining = 4\<close>; the five timestamps are gone from the store. One
  millisecond earlier, where the record is not replaced, the same store denies the call
  with that reset time; and for a client without a record, of six calls at 0 to 5 the
  first five are allowed and the sixth is denied with reset time 0 + 900000.
\<close>

theorem reset_allows_call_over_five_survivors:
  "snd (checkRateLimitSeq Map.empty ''ip'' exampleConfig [0, 899996, 899997, 899998, 899999, 900000]) ''ip''
     = exampleLateStore ''ip''
   \<and> exampleLateStore ''ip''
     = Some \<lparr>count = 5, resetTime = 900000,
             requestTimestamps = [899996, 899997, 899998, 899999, 900000]\<rparr>
   \<and> filter (\<lambda>timestamp. timestamp > 900001 - windowMs exampleConfig)
        [899996, 899997, 899998, 899999, 900000]
     = [899996, 899997, 899998, 899999, 900000]
   \<and> maxRequests exampleConfig = 5
   \<and> fst (checkRateLimit exampleLateStore 900001 ''ip'' exampleConfig)
     = \<lparr>allowed = True, remaining = 4, reportedResetTime = Some 1800001\<rparr>
   \<and> snd (checkRateLimit exampleLateStore 900001 ''ip'' exampleConfig) ''ip''
     = Some \<lparr>count = 1, resetTime = 1800001, requestTimestamps = [900001]\<rparr>
   \<and> fst (checkRateLimit exampleLateStore 900000 ''ip'' exampleConfig)
     = \<lparr>allowed = False, remaining = 0, reportedResetTime = Some 1799996\<rparr>
   \<and> map (\<lambda>(now, res). (allowed res, reportedResetTime res))
        (fst (checkRateLimitSeq Map.empty ''ip'' exampleConfig [0, 1, 2, 3, 4, 5]))
     = [(True, Some 900000), (True, Some 900000), (True, Some 900000), (True, Some 900000),
        (True, Some 900000), (False, Some 900000)]"
  by (simp add: checkRateLimit_def keptTimestamps_def currentRecord_def exampleConfig_def
        exampleLateStore_def Let_def)

lemma filter_length_id: "length xs \<le> length (filter P xs) \<Longrightarrow> filter P xs = xs"
  by (metis filter_id_conv length_filter_less not_less)

lemma denied_has_live_record:
  assumes denied: "\<not> allowed (fst (checkRateLimit store now key config))"
    and pos: "0 < maxRequests config"
  shows "\<exists>r. store key = Some r \<and> \<not> resetTime r < now"
proof (rule ccontr)
  assume "\<not> ?thesis"
  then have "store key = None \<or> (\<exists>r. store key = Some r \<and> resetTime r < now)"
    by (cases "store key") auto
  then have "keptTimestamps store now key config = []"
    by (rule kept_of_new_record)
  with pos have "allowed (fst (checkRateLimit store now key config))"
    by (simp add: allowed_iff)
  with denied show False by simp
qed

lemma denied_post_store:
  assumes denied: "\<not> allowed (fst (checkRateLimit store now key config))"
    and live: "store key = Some r" "\<not> resetTime r < now"
  shows "snd (checkRateLimit store now key config)
           = store(key \<mapsto> r\<lparr>requestTimestamps :=
                                filter (\<lambda>t. now - windowMs config < t) (requestTimestamps r)\<rparr>)"
proof -
  have "maxRequests config \<le> int (length (keptTimestamps store now key config))"
    using denied by (simp add: allowed_iff)
  then show ?thesis
    using live by (simp add: checkRateLimit_denied kept_of_live_record currentRecord_def)
qed

lemma filter_window_later:
  fixes now now2 w :: int
  assumes "now \<le> now2"
  shows "filter (\<lambda>t. now2 - w < t) (filter (\<lambda>t. now - w < t) xs) = filter (\<lambda>t. now2 - w < t) xs"
  using assms by (induction xs) auto

lemma denied_call_invisible:
  assumes denied: "\<not> allowed (fst (checkRateLimit store now key config))"
    and pos: "0 < maxRequests config"
    and later: "now \<le> now2"
  shows "checkRateLimit (snd (checkRateLimit store now key config)) now2 key config
           = checkRateLimit store now2 key config"
proof -
  obtain r where live: "store key = Some r" "\<not> resetTime r < now"
    using denied_has_live_record [OF denied pos] by blast
  let ?r' = "r\<lparr>requestTimestamps := filter (\<lambda>t. now - windowMs config < t) (requestTimestamps r)\<rparr>"
  have post: "snd (checkRateLimit store now key config) = store(key \<mapsto> ?r')"
    by (rule denied_post_store [OF denied live])
  show ?thesis
  proof (cases "resetTime r < now2")
    case True
    then show ?thesis
      unfolding post using live
      by (simp add: checkRateLimit_def keptTimestamps_def currentRecord_def Let_def)
  next
    case False
    then show ?thesis
      unfolding post using live filter_window_later [OF later, of "windowMs config" "requestTimestamps r"]
      by (simp add: checkRateLimit_def keptTimestamps_def currentRecord_def Let_def)
  qed
qed

text \<open>
  A record filled under one configuration never holds more than \<open>maxRequests\<close>
  timestamps: the bound is kept by every call.
\<close>

lemma kept_count_bounded:
  assumes "0 \<le> maxRequests config"
    and "\<And>r. store key = Some r \<Longrightarrow> int (length (requestTimestamps r)) \<le> maxRequests config"
  shows "int (length (keptTimestamps store now key config)) \<le> maxRequests config"
proof (cases "store key")
  case None
  then show ?thesis using assms(1) by (simp add: keptTimestamps_def currentRecord_def Let_def)
next
  case (Some r)
  have bound: "int (length (requestTimestamps r)) \<le> maxRequests config"
    using assms(2) Some by simp
  show ?thesis
  proof (cases "resetTime r < now")
    case True
    then show ?thesis
      using Some assms(1) by (simp add: keptTimestamps_def currentRecord_def Let_def)
  next
    case False
    then have k: "keptTimestamps store now key config
                    = filter (\<lambda>t. now - windowMs config < t) (requestTimestamps r)"
      using Some by (simp add: keptTimestamps_def currentRecord_def Let_def)
    have "int (length (filter (\<lambda>t. now - windowMs config < t) (requestTimestamps r)))
            \<le> int (length (requestTimestamps r))"
      by simp
    with bound show ?thesis
      unfolding k by linarith
  qed
qed

lemma stored_count_bounded:
  assumes "0 \<le> maxRequests config"
    and "\<And>r. store key = Some r \<Longrightarrow> int (length (requestTimestamps r)) \<le> maxRequests config"
    and "snd (checkRateLimit store now key config) key = Some r'"
  shows "int (length (requestTimestamps r')) \<le> maxRequests config"
proof (cases "int (length (keptTimestamps store now key config)) < maxRequests config")
  case True
  then show ?thesis
    using assms(3) by (auto simp add: checkRateLimit_allowed)
next
  case False
  then show ?thesis
    using assms(3) kept_count_bounded [of config store key now, OF assms(1,2)]
    by (auto simp add: checkRateLimit_denied)
qed

text \<open>
  Claim C10. A denied call (with a positive \<open>maxRequests\<close>) does not record its own
  timestamp. The client had a record that was not reset, and the store after the call
  differs from the store before it only in that the record's timestamps at or before
  \<open>now - windowMs\<close> are gone. A later call cannot tell that the denied call
  was made: it returns the same result and leaves the same store as if it had been made on
  the store before the denied call. In particular, when the record held no more than
  \<open>maxRequests\<close> timestamps of the window, a later call that is denied too reports the same
  reset time and leaves the same store as the first denied call.
\<close>

theorem denied_call_records_nothing:
  assumes denied: "\<not> allowed (fst (checkRateLimit store now key config))"
    and pos: "0 < maxRequests config"
  shows "(\<exists>r. store key = Some r \<and> \<not> resetTime r < now
            \<and> snd (checkRateLimit store now key config)
                = store(key \<mapsto> r\<lparr>requestTimestamps :=
                                     filter (\<lambda>t. now - windowMs config < t) (requestTimestamps r)\<rparr>))
       \<and> (\<forall>now2. now \<le> now2 \<longrightarrow>
             checkRateLimit (snd (checkRateLimit store now key config)) now2 key config
               = checkRateLimit store now2 key config)
       \<and> (\<forall>now2. now \<le> now2
               \<and> int (length (keptTimestamps store now key config)) \<le> maxRequests config
               \<and> \<not> allowed (fst (checkRateLimit (snd (checkRateLimit store now key config)) now2 key config))
             \<longrightarrow> reportedResetTime (fst (checkRateLimit (snd (checkRateLimit store now key config)) now2 key config))
                   = reportedResetTime (fst (checkRateLimit store now key config))
                 \<and> snd (checkRateLimit (snd (checkRateLimit store now key config)) now2 key config)
                   = snd (checkRateLimit store now key config))"
proof (intro conjI allI impI)
  obtain r where live: "store key = Some r" "\<not> resetTime r < now"
    using denied_has_live_record [OF denied pos] by blast
  show "\<exists>r. store key = Some r \<and> \<not> resetTime r < now
            \<and> snd (checkRateLimit store now key config)
                = store(key \<mapsto> r\<lparr>requestTimestamps :=
                                     filter (\<lambda>t. now - windowMs config < t) (requestTimestamps r)\<rparr>)"
    using live denied_post_store [OF denied live] by blast
next
  fix now2 assume "now \<le> now2"
  then show "checkRateLimit (snd (checkRateLimit store now key config)) now2 key config
               = checkRateLimit store now2 key config"
    by (rule denied_call_invisible [OF denied pos])
next
  fix now2
  assume a: "now \<le> now2
               \<and> int (length (keptTimestamps store now key config)) \<le> maxRequests config
               \<and> \<not> allowed (fst (checkRateLimit (snd (checkRateLimit store now key config)) now2 key config))"
  obtain r where live: "store key = Some r" "\<not> resetTime r < now"
    using denied_has_live_record [OF denied pos] by blast
  have inv: "checkRateLimit (snd (checkRateLimit store now key config)) now2 key config
               = checkRateLimit store now2 key config"
    using a denied_call_invisible [OF denied pos] by blast
  then have denied2: "\<not> allowed (fst (checkRateLimit store now2 key config))"
    using a by simp
  have live2: "\<not> resetTime r < now2"
    using denied_has_live_record [OF denied2 pos] live by auto
  have k1: "keptTimestamps store now key config
              = filter (\<lambda>t. now - windowMs config < t) (requestTimestamps r)"
    using live by (rule kept_of_live_record)
  have k2: "keptTimestamps store now2 key config
              = filter (\<lambda>t. now2 - windowMs config < t) (keptTimestamps store now key config)"
    using a live live2 filter_window_later [of now now2 "windowMs config" "requestTimestamps r"]
    by (simp add: kept_of_live_record)
  have "maxRequests config \<le> int (length (keptTimestamps store now2 key config))"
    using denied2 by (simp add: allowed_iff)
  with a have "length (keptTimestamps store now key config)
                 \<le> length (filter (\<lambda>t. now2 - windowMs config < t) (keptTimestamps store now key config))"
    unfolding k2 by linarith
  then have same: "keptTimestamps store now2 key config = keptTimestamps store now key config"
    unfolding k2 by (rule filter_length_id)
  have d1: "maxRequests config \<le> int (length (keptTimestamps store now key config))"
    using denied by (simp add: allowed_iff)
  have cur: "currentRecord store now2 key config = currentRecord store now key config"
    using live live2 by (simp add: currentRecord_def)
  have eq: "checkRateLimit store now2 key config = checkRateLimit store now key config"
    using d1 by (simp add: checkRateLimit_denied same cur)
  show "reportedResetTime (fst (checkRateLimit (snd (checkRateLimit store now key config)) now2 key config))
          = reportedResetTime (fst (checkRateLimit store now key config))"
    by (simp add: inv eq)
  show "snd (checkRateLimit (snd (checkRateLimit store now key config)) now2 key config)
          = snd (checkRateLimit store now key config)"
    by (simp add: inv eq)
qed

theorem denied_call_records_nothing_witness:
  "\<not> allowed (fst (checkRateLimit exampleStore 5 ''ip'' exampleConfig))
   \<and> 0 < maxRequests exampleConfig
   \<and> (5 :: int) \<le> 7
   \<and> int (length (keptTimestamps exampleStore 5 ''ip'' exampleConfig)) \<le> maxRequests exampleConfig
   \<and> \<not> allowed (fst (checkRateLimit (snd (checkRateLimit exampleStore 5 ''ip'' exampleConfig)) 7 ''ip'' exampleConfig))
   \<and> snd (checkRateLimit exampleStore 5 ''ip'' exampleConfig) = exampleStore
   \<and> checkRateLimit (snd (checkRateLimit exampleStore 5 ''ip'' exampleConfig)) 7 ''ip'' exampleConfig
       = checkRateLimit exampleStore 7 ''ip'' exampleConfig
   \<and> reportedResetTime (fst (checkRateLimit (snd (checkRateLimit exampleStore 5 ''ip'' exampleConfig)) 7 ''ip'' exampleConfig))
       = reportedResetTime (fst (checkRateLimit exampleStore 5 ''ip'' exampleConfig))"
proof -
  have k: "keptTimestamps exampleStore 5 ''ip'' exampleConfig = [0, 1, 2, 3, 4]"
    by (simp add: keptTimestamps_def currentRecord_def exampleStore_def exampleConfig_def Let_def)
  have c: "maxRequests exampleConfig = 5"
    by (simp add: exampleConfig_def)
  have d: "\<not> allowed (fst (checkRateLimit exampleStore 5 ''ip'' exampleConfig))"
    by (simp add: allowed_iff k c)
  have p: "0 < maxRequests exampleConfig"
    by (simp add: c)
  have post: "snd (checkRateLimit exampleStore 5 ''ip'' exampleConfig) = exampleStore"
    by (simp add: checkRateLimit_denied k c)
       (simp add: exampleStore_def currentRecord_def)
  have k7: "keptTimestamps exampleStore 7 ''ip'' exampleConfig = [0, 1, 2, 3, 4]"
    by (simp add: keptTimestamps_def currentRecord_def exampleStore_def exampleConfig_def Let_def)
  have d7: "\<not> allowed (fst (checkRateLimit (snd (checkRateLimit exampleStore 5 ''ip'' exampleConfig)) 7 ''ip'' exampleConfig))"
    by (simp add: post allowed_iff k7 c)
  note t = denied_call_records_nothing [OF d p]
  have later: "(5 :: int) \<le> 7" by simp
  have bound: "int (length (keptTimestamps exampleStore 5 ''ip'' exampleConfig)) \<le> maxRequests exampleConfig"
    by (simp add: k c)
  from t have t2: "checkRateLimit (snd (checkRateLimit exampleStore 5 ''ip'' exampleConfig)) 7 ''ip'' exampleConfig
       = checkRateLimit exampleStore 7 ''ip'' exampleConfig"
    using later by blast
  from t have t3: "reportedResetTime (fst (checkRateLimit (snd (checkRateLimit exampleStore 5 ''ip'' exampleConfig)) 7 ''ip'' exampleConfig))
       = reportedResetTime (fst (checkRateLimit exampleStore 5 ''ip'' exampleConfig))"
    using later bound d7 by blast
  show ?thesis
    using d p later bound d7 post t2 t3 by blast
qed

text \<open>
  Claim C4, evaluated. With \<open>maxRequests = 5\<close> and a window of 900000 ms (the default
  for the authentication routes), a client calls at 0, at 899996 to 900000 and at 900001
  to 900005. The record is created at 0 with \<open>resetTime = 900000\<close>; the call at 900001
  finds \<open>resetTime < now\<close> and starts an empty record, dropping the timestamps 899996 to
  900000 that are still inside the window. All eleven calls are allowed, and ten of them
  lie in the trailing window \<open>(5, 900005]\<close>.
\<close>

theorem sliding_window_exceeded_after_reset:
  "map (\<lambda>(now, res). allowed res)
      (fst (checkRateLimitSeq Map.empty ''ip'' exampleConfig
              [0, 899996, 899997, 899998, 899999, 900000, 900001, 900002, 900003, 900004, 900005]))
     = [True, True, True, True, True, True, True, True, True, True, True]
   \<and> allowedInWindow
       (fst (checkRateLimitSeq Map.empty ''ip'' exampleConfig
               [0, 899996, 899997, 899998, 899999, 900000, 900001, 900002, 900003, 900004, 900005]))
       (windowMs exampleConfig) 900005
     = [899996, 899997, 899998, 899999, 900000, 900001, 900002, 900003, 900004, 900005]
   \<and> int (length (allowedInWindow
       (fst (checkRateLimitSeq Map.empty ''ip'' exampleConfig
               [0, 899996, 899997, 899998, 899999, 900000, 900001, 900002, 900003, 900004, 900005]))
       (windowMs exampleConfig) 900005)) = 10
   \<and> maxRequests exampleConfig = 5"
  by (simp add: checkRateLimit_def keptTimestamps_def currentRecord_def allowedInWindow_def
        exampleConfig_def Let_def)

section \<open>Properties of the order status route\<close>

lemma order_id_applyUpdate [simp]: "order_id (applyUpdate u ord) = order_id ord"
  by (simp add: applyUpdate_def)

lemma order_findUnique_id: "order_findUnique table oid = Some ord \<Longrightarrow> order_id ord = oid"
  unfolding order_findUnique_def by (induction table) (auto split: if_splits)

lemma order_findUnique_update:
  "order_findUnique table oid = Some ord \<Longrightarrow>
   order_findUnique (order_update table oid u) oid = Some (applyUpdate u ord)"
  unfolding order_findUnique_def order_update_def
  by (induction table) (auto split: if_splits)

lemma orderTable_dispatchOrderPaid [simp]: "orderTable (dispatchOrderPaid env w oid) = orderTable w"
  by (simp add: dispatchOrderPaid_def Let_def split: prod.splits sum.splits)

text \<open>A request that passes the switch, and one that the switch answers itself.\<close>

lemma PATCH_accepted:
  assumes "user request = Some usr" and "body request = Action action"
    and "action \<in> set UpdateOrderStatusSchema"
    and "order_findUnique (orderTable w) (orderIdParam request) = Some ord"
    and "switchAction usr ord action now = Inr u"
  shows "PATCH env now request w =
           (Success (applyUpdate u ord),
            (if paymentStatus (applyUpdate u ord) = PAID \<or>
                (orderStatus (applyUpdate u ord) = DELIVERED \<and> paymentMethod (applyUpdate u ord) = CASH)
             then dispatchOrderPaid env (w\<lparr>orderTable := order_update (orderTable w) (orderIdParam request) u\<rparr>)
                    (order_id ord)
             else w\<lparr>orderTable := order_update (orderTable w) (orderIdParam request) u\<rparr>))"
  using assms by (simp add: PATCH_def Let_def)

lemma PATCH_rejected:
  assumes "user request = Some usr" and "body request = Action action"
    and "action \<in> set UpdateOrderStatusSchema"
    and "order_findUnique (orderTable w) (orderIdParam request) = Some ord"
    and "switchAction usr ord action now = Inl response"
  shows "PATCH env now request w = (response, w)"
  using assms by (simp add: PATCH_def Let_def)

text \<open>The detached dispatch on a reachable ledger: the first time, and every later time.\<close>

lemma dispatchOrderPaid_first:
  assumes "reachable (ledger w)" and "(oid, ''order_paid'') \<notin> set (dispatchRows (ledger w))"
  shows "dispatchOrderPaid env w oid =
           w\<lparr>ledger := (ledger w)\<lparr>dispatchRows := dispatchRows (ledger w) @ [(oid, ''order_paid'')]\<rparr>,
             sent := sent w
               @ (if falsy (GA4_MEASUREMENT_ID env) \<or> falsy (GA4_API_SECRET env) then [] else [GA4Collect oid])
               @ (if falsy (META_PIXEL_ID env) \<or> falsy (META_ACCESS_TOKEN env) then [] else [MetaEvents oid])\<rparr>"
proof -
  have "find (\<lambda>row. row = (oid, ''order_paid'')) (dispatchRows (ledger w)) = None"
    using assms(2) by (simp add: find_None_iff)
  then show ?thesis
    using assms
    by (simp add: dispatchOrderPaid_def hasDispatched_def markDispatched_def
          eventDispatch_findUnique_def eventDispatch_create_def
          dispatchGA4Purchase_def dispatchMetaPurchase_def Let_def)
qed

lemma dispatchOrderPaid_again:
  assumes "reachable (ledger w)" and "(oid, ''order_paid'') \<in> set (dispatchRows (ledger w))"
  shows "dispatchOrderPaid env w oid = w"
proof -
  have "find (\<lambda>row. row = (oid, ''order_paid'')) (dispatchRows (ledger w)) \<noteq> None"
    using assms(2) by (simp add: find_None_iff)
  then show ?thesis
    using assms
    by (auto simp add: dispatchOrderPaid_def hasDispatched_def eventDispatch_findUnique_def Let_def)
qed

text \<open>
  Claim C9. A courier's \<open>start_delivery\<close> on a \<open>DELIVERED\<close> order (on any order that is not
  \<open>PENDING\<close>) is answered with \<open>InvalidState\<close> and changes nothing; on a \<open>PENDING\<close> order it
  succeeds, the order becomes \<open>IN_DELIVERY\<close> and carries the calling courier's identifier.
  \<open>complete_delivery\<close> by a caller whose role is not \<open>COURIER\<close> is answered with
  \<open>Forbidden\<close> and changes nothing. (The role is checked before the state.)
\<close>

theorem start_and_complete_guards:
  assumes "user request = Some usr"
    and "order_findUnique (orderTable w) (orderIdParam request) = Some ord"
  shows "(body request = Action ''start_delivery'' \<and> role usr = ''COURIER'' \<and> orderStatus ord = DELIVERED
            \<longrightarrow> PATCH env now request w = (InvalidState, w))
       \<and> (body request = Action ''start_delivery'' \<and> role usr = ''COURIER'' \<and> orderStatus ord \<noteq> PENDING
            \<longrightarrow> PATCH env now request w = (InvalidState, w))
       \<and> (body request = Action ''start_delivery'' \<and> role usr = ''COURIER'' \<and> orderStatus ord = PENDING
            \<longrightarrow> fst (PATCH env now request w)
                  = Success (ord\<lparr>orderStatus := IN_DELIVERY, courierId := Some (user_id usr)\<rparr>)
                \<and> order_findUnique (orderTable (snd (PATCH env now request w))) (orderIdParam request)
                  = Some (ord\<lparr>orderStatus := IN_DELIVERY, courierId := Some (user_id usr)\<rparr>))
       \<and> (body request = Action ''complete_delivery'' \<and> role usr \<noteq> ''COURIER''
            \<longrightarrow> PATCH env now request w = (Forbidden, w))"
proof (intro conjI impI)
  assume a: "body request = Action ''start_delivery'' \<and> role usr = ''COURIER'' \<and> orderStatus ord = DELIVERED"
  then have "switchAction usr ord ''start_delivery'' now = Inl InvalidState"
    by (simp add: switchAction_def)
  with a assms show "PATCH env now request w = (InvalidState, w)"
    by (intro PATCH_rejected [where usr = usr and ord = ord and action = "''start_delivery''"])
       (simp_all add: UpdateOrderStatusSchema_def)
next
  assume a: "body request = Action ''start_delivery'' \<and> role usr = ''COURIER'' \<and> orderStatus ord \<noteq> PENDING"
  then have "switchAction usr ord ''start_delivery'' now = Inl InvalidState"
    by (simp add: switchAction_def)
  with a assms show "PATCH env now request w = (InvalidState, w)"
    by (intro PATCH_rejected [where usr = usr and ord = ord and action = "''start_delivery''"])
       (simp_all add: UpdateOrderStatusSchema_def)
next
  assume a: "body request = Action ''complete_delivery'' \<and> role usr \<noteq> ''COURIER''"
  then have "switchAction usr ord ''complete_delivery'' now = Inl Forbidden"
    by (simp add: switchAction_def)
  with a assms show "PATCH env now request w = (Forbidden, w)"
    by (intro PATCH_rejected [where usr = usr and ord = ord and action = "''complete_delivery''"])
       (simp_all add: UpdateOrderStatusSchema_def)
next
  assume a: "body request = Action ''start_delivery'' \<and> role usr = ''COURIER'' \<and> orderStatus ord = PENDING"
  let ?u = "noUpdate\<lparr>setOrderStatus := Some IN_DELIVERY, setCourierId := Some (user_id usr)\<rparr>"
  from a have sw: "switchAction usr ord ''start_delivery'' now = Inr ?u"
    by (simp add: switchAction_def)
  have upd: "applyUpdate ?u ord = ord\<lparr>orderStatus := IN_DELIVERY, courierId := Some (user_id usr)\<rparr>"
    by (simp add: applyUpdate_def noUpdate_def)
  have p: "PATCH env now request w =
           (Success (applyUpdate ?u ord),
            (if paymentStatus (applyUpdate ?u ord) = PAID \<or>
                (orderStatus (applyUpdate ?u ord) = DELIVERED \<and> paymentMethod (applyUpdate ?u ord) = CASH)
             then dispatchOrderPaid env (w\<lparr>orderTable := order_update (orderTable w) (orderIdParam request) ?u\<rparr>)
                    (order_id ord)
             else w\<lparr>orderTable := order_update (orderTable w) (orderIdParam request) ?u\<rparr>))"
    using a assms sw
    by (intro PATCH_accepted [where usr = usr and action = "''start_delivery''"])
       (simp_all add: UpdateOrderStatusSchema_def)
  show "fst (PATCH env now request w)
          = Success (ord\<lparr>orderStatus := IN_DELIVERY, courierId := Some (user_id usr)\<rparr>)"
    by (simp add: p upd)
  show "order_findUnique (orderTable (snd (PATCH env now request w))) (orderIdParam request)
          = Some (ord\<lparr>orderStatus := IN_DELIVERY, courierId := Some (user_id usr)\<rparr>)"
    using order_findUnique_update [OF assms(2), of ?u] by (simp add: p upd)
qed

theorem start_and_complete_guards_witness:
  "user (courierRequest ''start_delivery'') = Some \<lparr>user_id = ''courier1'', role = ''COURIER''\<rparr>
   \<and> order_findUnique (orderTable (exampleWorld DELIVERED)) (orderIdParam (courierRequest ''start_delivery''))
       = Some (exampleOrder DELIVERED)
   \<and> PATCH exampleAnalyticsEnv 5000 (courierRequest ''start_delivery'') (exampleWorld DELIVERED)
       = (InvalidState, exampleWorld DELIVERED)
   \<and> order_findUnique (orderTable (exampleWorld PENDING)) (orderIdParam (courierRequest ''start_delivery''))
       = Some (exampleOrder PENDING)
   \<and> fst (PATCH exampleAnalyticsEnv 5000 (courierRequest ''start_delivery'') (exampleWorld PENDING))
       = Success ((exampleOrder PENDING)\<lparr>orderStatus := IN_DELIVERY, courierId := Some ''courier1''\<rparr>)
   \<and> user (adminRequest ''complete_delivery'') = Some \<lparr>user_id = ''admin1'', role = ''SUPER_ADMIN''\<rparr>
   \<and> order_findUnique (orderTable (exampleWorld IN_DELIVERY)) (orderIdParam (adminRequest ''complete_delivery''))
       = Some (exampleOrder IN_DELIVERY)
   \<and> PATCH exampleAnalyticsEnv 5000 (adminRequest ''complete_delivery'') (exampleWorld IN_DELIVERY)
       = (Forbidden, exampleWorld IN_DELIVERY)"
proof -
  have u1: "user (courierRequest ''start_delivery'') = Some \<lparr>user_id = ''courier1'', role = ''COURIER''\<rparr>"
    by (simp add: courierRequest_def)
  have u2: "user (adminRequest ''complete_delivery'') = Some \<lparr>user_id = ''admin1'', role = ''SUPER_ADMIN''\<rparr>"
    by (simp add: adminRequest_def)
  have f1: "order_findUnique (orderTable (exampleWorld DELIVERED)) (orderIdParam (courierRequest ''start_delivery''))
              = Some (exampleOrder DELIVERED)"
    by (simp add: order_findUnique_def exampleWorld_def exampleOrder_def courierRequest_def)
  have f2: "order_findUnique (orderTable (exampleWorld PENDING)) (orderIdParam (courierRequest ''start_delivery''))
              = Some (exampleOrder PENDING)"
    by (simp add: order_findUnique_def exampleWorld_def exampleOrder_def courierRequest_def)
  have f3: "order_findUnique (orderTable (exampleWorld IN_DELIVERY)) (orderIdParam (adminRequest ''complete_delivery''))
              = Some (exampleOrder IN_DELIVERY)"
    by (simp add: order_findUnique_def exampleWorld_def exampleOrder_def adminRequest_def)
  have b1: "body (courierRequest ''start_delivery'') = Action ''start_delivery''"
    by (simp add: courierRequest_def)
  have b2: "body (adminRequest ''complete_delivery'') = Action ''complete_delivery''"
    by (simp add: adminRequest_def)
  have s: "orderStatus (exampleOrder DELIVERED) = DELIVERED" "orderStatus (exampleOrder PENDING) = PENDING"
    by (simp_all add: exampleOrder_def)
  note t1 = start_and_complete_guards [OF u1 f1, of exampleAnalyticsEnv 5000]
  note t2 = start_and_complete_guards [OF u1 f2, of exampleAnalyticsEnv 5000]
  note t3 = start_and_complete_guards [OF u2 f3, of exampleAnalyticsEnv 5000]
  have r1: "PATCH exampleAnalyticsEnv 5000 (courierRequest ''start_delivery'') (exampleWorld DELIVERED)
              = (InvalidState, exampleWorld DELIVERED)"
    using t1 b1 s by simp
  have r2: "fst (PATCH exampleAnalyticsEnv 5000 (courierRequest ''start_delivery'') (exampleWorld PENDING))
              = Success ((exampleOrder PENDING)\<lparr>orderStatus := IN_DELIVERY, courierId := Some ''courier1''\<rparr>)"
    using t2 b1 s by simp
  have r3: "PATCH exampleAnalyticsEnv 5000 (adminRequest ''complete_delivery'') (exampleWorld IN_DELIVERY)
              = (Forbidden, exampleWorld IN_DELIVERY)"
    using t3 b2 by simp
  show ?thesis
    using u1 u2 f1 f2 f3 r1 r2 r3 by simp
qed

text \<open>
  Claim C3, evaluated. A courier's \<open>complete_delivery\<close> on an order that is \<open>PENDING\<close>,
  \<open>DELIVERED\<close> or \<open>FAILED\<close> is not answered with \<open>InvalidState\<close>: it succeeds, sets the
  order to \<open>DELIVERED\<close> and stamps the delivery time (and, the order being a cash order,
  sends the purchase events). The other three actions do have the state guard:
  \<open>start_delivery\<close> on a \<open>DELIVERED\<close> order, \<open>pause_delivery\<close> and \<open>resume_delivery\<close> on a
  \<open>PENDING\<close> order are answered with \<open>InvalidState\<close> and change nothing.
\<close>

theorem complete_delivery_has_no_state_guard:
  "PATCH exampleAnalyticsEnv 5000 (courierRequest ''complete_delivery'') (exampleWorld PENDING)
     = (Success ((exampleOrder PENDING)\<lparr>orderStatus := DELIVERED, deliveredAt := Some 5000\<rparr>),
        \<lparr>orderTable = [(exampleOrder PENDING)\<lparr>orderStatus := DELIVERED, deliveredAt := Some 5000\<rparr>],
         ledger = \<lparr>reachable = True, dispatchRows = [(''ord1'', ''order_paid'')]\<rparr>,
         sent = [GA4Collect ''ord1'', MetaEvents ''ord1'']\<rparr>)
   \<and> fst (PATCH exampleAnalyticsEnv 5000 (courierRequest ''complete_delivery'') (exampleWorld DELIVERED))
     = Success ((exampleOrder DELIVERED)\<lparr>deliveredAt := Some 5000\<rparr>)
   \<and> fst (PATCH exampleAnalyticsEnv 5000 (courierRequest ''complete_delivery'') (exampleWorld FAILED))
     = Success ((exampleOrder FAILED)\<lparr>orderStatus := DELIVERED, deliveredAt := Some 5000\<rparr>)
   \<and> PATCH exampleAnalyticsEnv 5000 (courierRequest ''start_delivery'') (exampleWorld DELIVERED)
     = (InvalidState, exampleWorld DELIVERED)
   \<and> PATCH exampleAnalyticsEnv 5000 (courierRequest ''pause_delivery'') (exampleWorld PENDING)
     = (InvalidState, exampleWorld PENDING)
   \<and> PATCH exampleAnalyticsEnv 5000 (courierRequest ''resume_delivery'') (exampleWorld PENDING)
     = (InvalidState, exampleWorld PENDING)"
  by (simp add: PATCH_def courierRequest_def exampleWorld_def exampleOrder_def exampleAnalyticsEnv_def
        UpdateOrderStatusSchema_def order_findUnique_def order_update_def switchAction_def
        applyUpdate_def noUpdate_def dispatchOrderPaid_def hasDispatched_def markDispatched_def
        eventDispatch_findUnique_def eventDispatch_create_def dispatchGA4Purchase_def
        dispatchMetaPurchase_def falsy_def Let_def)

lemma courier_step:
  assumes "order_findUnique (orderTable w) oid = Some ord" and "role usr = ''COURIER''"
    and "action \<in> set UpdateOrderStatusSchema"
    and "switchAction usr ord action now = Inr u"
    and "paymentStatus ord = UNPAID" and "setOrderStatus u \<noteq> Some DELIVERED" and "setOrderStatus u \<noteq> None"
  shows "PATCH env now \<lparr>user = Some usr, orderIdParam = oid, body = Action action\<rparr> w
           = (Success (applyUpdate u ord), w\<lparr>orderTable := order_update (orderTable w) oid u\<rparr>)"
proof -
  have "paymentStatus (applyUpdate u ord) = UNPAID" "orderStatus (applyUpdate u ord) \<noteq> DELIVERED"
    using assms by (auto simp: applyUpdate_def split: option.splits)
  then show ?thesis
    using PATCH_accepted [of "\<lparr>user = Some usr, orderIdParam = oid, body = Action action\<rparr>" usr action w ord now u env]
      assms by simp
qed

lemma paid_step:
  assumes "order_findUnique (orderTable w) oid = Some ord" and "role usr = ''COURIER''"
    and "action \<in> set UpdateOrderStatusSchema"
    and "switchAction usr ord action now = Inr u"
    and "paymentStatus ord = PAID"
  shows "PATCH env now \<lparr>user = Some usr, orderIdParam = oid, body = Action action\<rparr> w
           = (Success (applyUpdate u ord),
              dispatchOrderPaid env (w\<lparr>orderTable := order_update (orderTable w) oid u\<rparr>) oid)"
proof -
  have "paymentStatus (applyUpdate u ord) = PAID"
    using assms by (simp add: applyUpdate_def)
  moreover have "order_id ord = oid"
    using assms(1) by (rule order_findUnique_id)
  ultimately show ?thesis
    using PATCH_accepted [of "\<lparr>user = Some usr, orderIdParam = oid, body = Action action\<rparr>" usr action w ord now u env]
      assms by simp
qed

lemma paid_step_first:
  assumes "order_findUnique (orderTable w) oid = Some ord" and "role usr = ''COURIER''"
    and "action \<in> set UpdateOrderStatusSchema"
    and "switchAction usr ord action now = Inr u"
    and "paymentStatus ord = PAID"
    and "reachable (ledger w)" and "(oid, ''order_paid'') \<notin> set (dispatchRows (ledger w))"
  shows "PATCH env now \<lparr>user = Some usr, orderIdParam = oid, body = Action action\<rparr> w
           = (Success (applyUpdate u ord),
              w\<lparr>orderTable := order_update (orderTable w) oid u,
                ledger := (ledger w)\<lparr>dispatchRows := dispatchRows (ledger w) @ [(oid, ''order_paid'')]\<rparr>,
                sent := sent w
                  @ (if falsy (GA4_MEASUREMENT_ID env) \<or> falsy (GA4_API_SECRET env) then [] else [GA4Collect oid])
                  @ (if falsy (META_PIXEL_ID env) \<or> falsy (META_ACCESS_TOKEN env) then [] else [MetaEvents oid])\<rparr>)"
  using paid_step [OF assms(1-5), of env]
    dispatchOrderPaid_first [of "w\<lparr>orderTable := order_update (orderTable w) oid u\<rparr>" oid env] assms(6,7)
  by simp

lemma paid_step_again:
  assumes "order_findUnique (orderTable w) oid = Some ord" and "role usr = ''COURIER''"
    and "action \<in> set UpdateOrderStatusSchema"
    and "switchAction usr ord action now = Inr u"
    and "paymentStatus ord = PAID"
    and "reachable (ledger w)" and "(oid, ''order_paid'') \<in> set (dispatchRows (ledger w))"
  shows "PATCH env now \<lparr>user = Some usr, orderIdParam = oid, body = Action action\<rparr> w
           = (Success (applyUpdate u ord), w\<lparr>orderTable := order_update (orderTable w) oid u\<rparr>)"
  using paid_step [OF assms(1-5), of env]
    dispatchOrderPaid_again [of "w\<lparr>orderTable := order_update (orderTable w) oid u\<rparr>" oid env] assms(6,7)
  by simp

lemma order_paid_once_unpaid:
  assumes found: "order_findUnique (orderTable w) oid = Some ord"
    and pending: "orderStatus ord = PENDING"
    and unpaid: "paymentStatus ord = UNPAID"
    and cash: "paymentMethod ord = CASH"
    and up: "reachable (ledger w)"
    and fresh: "(oid, ''order_paid'') \<notin> set (dispatchRows (ledger w))"
    and courier: "role usr = ''COURIER''"
  shows "map (\<lambda>response. case response of Success ord' \<Rightarrow> Some (orderStatus ord') | _ \<Rightarrow> None)
           (fst (PATCHSeq env
              [(t1, \<lparr>user = Some usr, orderIdParam = oid, body = Action ''start_delivery''\<rparr>),
               (t2, \<lparr>user = Some usr, orderIdParam = oid, body = Action ''pause_delivery''\<rparr>),
               (t3, \<lparr>user = Some usr, orderIdParam = oid, body = Action ''resume_delivery''\<rparr>),
               (t4, \<lparr>user = Some usr, orderIdParam = oid, body = Action ''complete_delivery''\<rparr>)] w))
         = [Some IN_DELIVERY, Some PAUSED, Some IN_DELIVERY, Some DELIVERED]
    \<and> sent (snd (PATCHSeq env
              [(t1, \<lparr>user = Some usr, orderIdParam = oid, body = Action ''start_delivery''\<rparr>),
               (t2, \<lparr>user = Some usr, orderIdParam = oid, body = Action ''pause_delivery''\<rparr>),
               (t3, \<lparr>user = Some usr, orderIdParam = oid, body = Action ''resume_delivery''\<rparr>)] w))
         = sent w
    \<and> sent (snd (PATCHSeq env
              [(t1, \<lparr>user = Some usr, orderIdParam = oid, body = Action ''start_delivery''\<rparr>),
               (t2, \<lparr>user = Some usr, orderIdParam = oid, body = Action ''pause_delivery''\<rparr>),
               (t3, \<lparr>user = Some usr, orderIdParam = oid, body = Action ''resume_delivery''\<rparr>),
               (t4, \<lparr>user = Some usr, orderIdParam = oid, body = Action ''complete_delivery''\<rparr>)] w))
         = sent w
           @ (if falsy (GA4_MEASUREMENT_ID env) \<or> falsy (GA4_API_SECRET env) then [] else [GA4Collect oid])
           @ (if falsy (META_PIXEL_ID env) \<or> falsy (META_ACCESS_TOKEN env) then [] else [MetaEvents oid])
    \<and> dispatchRows (ledger (snd (PATCHSeq env
              [(t1, \<lparr>user = Some usr, orderIdParam = oid, body = Action ''start_delivery''\<rparr>),
               (t2, \<lparr>user = Some usr, orderIdParam = oid, body = Action ''pause_delivery''\<rparr>),
               (t3, \<lparr>user = Some usr, orderIdParam = oid, body = Action ''resume_delivery''\<rparr>),
               (t4, \<lparr>user = Some usr, orderIdParam = oid, body = Action ''complete_delivery''\<rparr>)] w)))
         = dispatchRows (ledger w) @ [(oid, ''order_paid'')]
    \<and> sent (snd (PATCHSeq env
              [(t1, \<lparr>user = Some usr, orderIdParam = oid, body = Action ''start_delivery''\<rparr>),
               (t2, \<lparr>user = Some usr, orderIdParam = oid, body = Action ''pause_delivery''\<rparr>),
               (t3, \<lparr>user = Some usr, orderIdParam = oid, body = Action ''resume_delivery''\<rparr>),
               (t4, \<lparr>user = Some usr, orderIdParam = oid, body = Action ''complete_delivery''\<rparr>),
               (t5, \<lparr>user = Some usr, orderIdParam = oid, body = Action ''complete_delivery''\<rparr>)] w))
         = sent (snd (PATCHSeq env
              [(t1, \<lparr>user = Some usr, orderIdParam = oid, body = Action ''start_delivery''\<rparr>),
               (t2, \<lparr>user = Some usr, orderIdParam = oid, body = Action ''pause_delivery''\<rparr>),
               (t3, \<lparr>user = Some usr, orderIdParam = oid, body = Action ''resume_delivery''\<rparr>),
               (t4, \<lparr>user = Some usr, orderIdParam = oid, body = Action ''complete_delivery''\<rparr>)] w))"
proof -
  let ?r = "\<lambda>a. \<lparr>user = Some usr, orderIdParam = oid, body = Action a\<rparr>"
  have oid: "order_id ord = oid" using found by (rule order_findUnique_id)
  \<comment> \<open>start\<close>
  define u1 where "u1 = noUpdate\<lparr>setOrderStatus := Some IN_DELIVERY, setCourierId := Some (user_id usr)\<rparr>"
  define ord1 where "ord1 = applyUpdate u1 ord"
  define w1 where "w1 = w\<lparr>orderTable := order_update (orderTable w) oid u1\<rparr>"
  have s1: "PATCH env t1 (?r ''start_delivery'') w = (Success ord1, w1)"
    unfolding ord1_def w1_def
    by (rule courier_step [OF found courier])
       (simp_all add: UpdateOrderStatusSchema_def switchAction_def courier pending unpaid u1_def noUpdate_def)
  have f1: "order_findUnique (orderTable w1) oid = Some ord1"
    unfolding w1_def ord1_def using order_findUnique_update [OF found] by simp
  have p1: "orderStatus ord1 = IN_DELIVERY" "paymentStatus ord1 = UNPAID" "paymentMethod ord1 = CASH"
    by (simp_all add: ord1_def u1_def applyUpdate_def noUpdate_def unpaid cash)
  \<comment> \<open>pause\<close>
  define u2 where "u2 = noUpdate\<lparr>setOrderStatus := Some PAUSED\<rparr>"
  define ord2 where "ord2 = applyUpdate u2 ord1"
  define w2 where "w2 = w1\<lparr>orderTable := order_update (orderTable w1) oid u2\<rparr>"
  have s2: "PATCH env t2 (?r ''pause_delivery'') w1 = (Success ord2, w2)"
    unfolding ord2_def w2_def
    by (rule courier_step [OF f1 courier])
       (simp_all add: UpdateOrderStatusSchema_def switchAction_def courier p1 u2_def noUpdate_def)
  have f2: "order_findUnique (orderTable w2) oid = Some ord2"
    unfolding w2_def ord2_def using order_findUnique_update [OF f1] by simp
  have p2: "orderStatus ord2 = PAUSED" "paymentStatus ord2 = UNPAID" "paymentMethod ord2 = CASH"
    by (simp_all add: ord2_def u2_def applyUpdate_def noUpdate_def p1)
  \<comment> \<open>resume\<close>
  define u3 where "u3 = noUpdate\<lparr>setOrderStatus := Some IN_DELIVERY\<rparr>"
  define ord3 where "ord3 = applyUpdate u3 ord2"
  define w3 where "w3 = w2\<lparr>orderTable := order_update (orderTable w2) oid u3\<rparr>"
  have s3: "PATCH env t3 (?r ''resume_delivery'') w2 = (Success ord3, w3)"
    unfolding ord3_def w3_def
    by (rule courier_step [OF f2 courier])
       (simp_all add: UpdateOrderStatusSchema_def switchAction_def courier p2 u3_def noUpdate_def)
  have f3: "order_findUnique (orderTable w3) oid = Some ord3"
    unfolding w3_def ord3_def using order_findUnique_update [OF f2] by simp
  have p3: "orderStatus ord3 = IN_DELIVERY" "paymentStatus ord3 = UNPAID" "paymentMethod ord3 = CASH"
    by (simp_all add: ord3_def u3_def applyUpdate_def noUpdate_def p2)
  have l3: "ledger w3 = ledger w" "sent w3 = sent w"
    by (simp_all add: w3_def w2_def w1_def)
  \<comment> \<open>complete\<close>
  define u4 where "u4 = noUpdate\<lparr>setOrderStatus := Some DELIVERED, setDeliveredAt := Some t4\<rparr>"
  define ord4 where "ord4 = applyUpdate u4 ord3"
  define w4 where "w4 = dispatchOrderPaid env (w3\<lparr>orderTable := order_update (orderTable w3) oid u4\<rparr>) oid"
  have p4: "orderStatus ord4 = DELIVERED" "paymentStatus ord4 = UNPAID" "paymentMethod ord4 = CASH"
    by (simp_all add: ord4_def u4_def applyUpdate_def noUpdate_def p3)
  have oid3: "order_id ord3 = oid" using f3 by (rule order_findUnique_id)
  have s4: "PATCH env t4 (?r ''complete_delivery'') w3 = (Success ord4, w4)"
    using PATCH_accepted [of "?r ''complete_delivery''" usr "''complete_delivery''" w3 ord3 t4 u4 env]
      f3 p4 oid3
    by (simp add: UpdateOrderStatusSchema_def switchAction_def courier u4_def ord4_def w4_def)
  have w4: "w4 = (w3\<lparr>orderTable := order_update (orderTable w3) oid u4\<rparr>)
                 \<lparr>ledger := (ledger w)\<lparr>dispatchRows := dispatchRows (ledger w) @ [(oid, ''order_paid'')]\<rparr>,
                   sent := sent w
                     @ (if falsy (GA4_MEASUREMENT_ID env) \<or> falsy (GA4_API_SECRET env) then [] else [GA4Collect oid])
                     @ (if falsy (META_PIXEL_ID env) \<or> falsy (META_ACCESS_TOKEN env) then [] else [MetaEvents oid])\<rparr>"
    unfolding w4_def
    using dispatchOrderPaid_first [of "w3\<lparr>orderTable := order_update (orderTable w3) oid u4\<rparr>" oid env]
      up fresh l3 by simp
  have f4: "order_findUnique (orderTable w4) oid = Some ord4"
    unfolding w4_def ord4_def using order_findUnique_update [OF f3] by simp
  \<comment> \<open>the replay\<close>
  define u5 where "u5 = noUpdate\<lparr>setOrderStatus := Some DELIVERED, setDeliveredAt := Some t5\<rparr>"
  define ord5 where "ord5 = applyUpdate u5 ord4"
  have p5: "orderStatus ord5 = DELIVERED" "paymentStatus ord5 = UNPAID" "paymentMethod ord5 = CASH"
    by (simp_all add: ord5_def u5_def applyUpdate_def noUpdate_def p4)
  have oid4: "order_id ord4 = oid" using f4 by (rule order_findUnique_id)
  have again: "dispatchOrderPaid env (w4\<lparr>orderTable := order_update (orderTable w4) oid u5\<rparr>) oid
                 = w4\<lparr>orderTable := order_update (orderTable w4) oid u5\<rparr>"
    by (rule dispatchOrderPaid_again) (simp_all add: w4 up)
  have s5: "PATCH env t5 (?r ''complete_delivery'') w4
              = (Success ord5, w4\<lparr>orderTable := order_update (orderTable w4) oid u5\<rparr>)"
    using PATCH_accepted [of "?r ''complete_delivery''" usr "''complete_delivery''" w4 ord4 t5 u5 env]
      f4 p5 oid4 again
    by (simp add: UpdateOrderStatusSchema_def switchAction_def courier u5_def ord5_def)
  show ?thesis
    by (simp add: s1 s2 s3 s4 s5 p1 p2 p3 p4 l3) (simp add: w4)
qed

lemma order_paid_once_paid:
  assumes found: "order_findUnique (orderTable w) oid = Some ord"
    and pending: "orderStatus ord = PENDING"
    and paid: "paymentStatus ord = PAID"
    and cash: "paymentMethod ord = CASH"
    and up: "reachable (ledger w)"
    and fresh: "(oid, ''order_paid'') \<notin> set (dispatchRows (ledger w))"
    and courier: "role usr = ''COURIER''"
  shows "map (\<lambda>response. case response of Success ord' \<Rightarrow> Some (orderStatus ord') | _ \<Rightarrow> None)
           (fst (PATCHSeq env
              [(t1, \<lparr>user = Some usr, orderIdParam = oid, body = Action ''start_delivery''\<rparr>),
               (t2, \<lparr>user = Some usr, orderIdParam = oid, body = Action ''pause_delivery''\<rparr>),
               (t3, \<lparr>user = Some usr, orderIdParam = oid, body = Action ''resume_delivery''\<rparr>),
               (t4, \<lparr>user = Some usr, orderIdParam = oid, body = Action ''complete_delivery''\<rparr>)] w))
         = [Some IN_DELIVERY, Some PAUSED, Some IN_DELIVERY, Some DELIVERED]
    \<and> sent (snd (PATCHSeq env
              [(t1, \<lparr>user = Some usr, orderIdParam = oid, body = Action ''start_delivery''\<rparr>),
               (t2, \<lparr>user = Some usr, orderIdParam = oid, body = Action ''pause_delivery''\<rparr>),
               (t3, \<lparr>user = Some usr, orderIdParam = oid, body = Action ''resume_delivery''\<rparr>),
               (t4, \<lparr>user = Some usr, orderIdParam = oid, body = Action ''complete_delivery''\<rparr>)] w))
         = sent w
           @ (if falsy (GA4_MEASUREMENT_ID env) \<or> falsy (GA4_API_SECRET env) then [] else [GA4Collect oid])
           @ (if falsy (META_PIXEL_ID env) \<or> falsy (META_ACCESS_TOKEN env) then [] else [MetaEvents oid])
    \<and> dispatchRows (ledger (snd (PATCHSeq env
              [(t1, \<lparr>user = Some usr, orderIdParam = oid, body = Action ''start_delivery''\<rparr>),
               (t2, \<lparr>user = Some usr, orderIdParam = oid, body = Action ''pause_delivery''\<rparr>),
               (t3, \<lparr>user = Some usr, orderIdParam = oid, body = Action ''resume_delivery''\<rparr>),
               (t4, \<lparr>user = Some usr, orderIdParam = oid, body = Action ''complete_delivery''\<rparr>)] w)))
         = dispatchRows (ledger w) @ [(oid, ''order_paid'')]
    \<and> sent (snd (PATCHSeq env
              [(t1, \<lparr>user = Some usr, orderIdParam = oid, body = Action ''start_delivery''\<rparr>),
               (t2, \<lparr>user = Some usr, orderIdParam = oid, body = Action ''pause_delivery''\<rparr>),
               (t3, \<lparr>user = Some usr, orderIdParam = oid, body = Action ''resume_delivery''\<rparr>),
               (t4, \<lparr>user = Some usr, orderIdParam = oid, body = Action ''complete_delivery''\<rparr>),
               (t5, \<lparr>user = Some usr, orderIdParam = oid, body = Action ''complete_delivery''\<rparr>)] w))
         = sent (snd (PATCHSeq env
              [(t1, \<lparr>user = Some usr, orderIdParam = oid, body = Action ''start_delivery''\<rparr>),
               (t2, \<lparr>user = Some usr, orderIdParam = oid, body = Action ''pause_delivery''\<rparr>),
               (t3, \<lparr>user = Some usr, orderIdParam = oid, body = Action ''resume_delivery''\<rparr>),
               (t4, \<lparr>user = Some usr, orderIdParam = oid, body = Action ''complete_delivery''\<rparr>)] w))"
proof -
  let ?r = "\<lambda>a. \<lparr>user = Some usr, orderIdParam = oid, body = Action a\<rparr>"
  let ?L = "(ledger w)\<lparr>dispatchRows := dispatchRows (ledger w) @ [(oid, ''order_paid'')]\<rparr>"
  let ?S = "sent w
              @ (if falsy (GA4_MEASUREMENT_ID env) \<or> falsy (GA4_API_SECRET env) then [] else [GA4Collect oid])
              @ (if falsy (META_PIXEL_ID env) \<or> falsy (META_ACCESS_TOKEN env) then [] else [MetaEvents oid])"
  \<comment> \<open>start: the order is paid, so the events go out now\<close>
  define u1 where "u1 = noUpdate\<lparr>setOrderStatus := Some IN_DELIVERY, setCourierId := Some (user_id usr)\<rparr>"
  define ord1 where "ord1 = applyUpdate u1 ord"
  define w1 where "w1 = w\<lparr>orderTable := order_update (orderTable w) oid u1, ledger := ?L, sent := ?S\<rparr>"
  have s1: "PATCH env t1 (?r ''start_delivery'') w = (Success ord1, w1)"
    unfolding ord1_def w1_def
    by (rule paid_step_first [OF found courier _ _ paid up fresh])
       (simp_all add: UpdateOrderStatusSchema_def switchAction_def courier pending u1_def)
  have f1: "order_findUnique (orderTable w1) oid = Some ord1"
    unfolding w1_def ord1_def using order_findUnique_update [OF found] by simp
  have p1: "orderStatus ord1 = IN_DELIVERY" "paymentStatus ord1 = PAID"
    by (simp_all add: ord1_def u1_def applyUpdate_def noUpdate_def paid)
  have l1: "reachable (ledger w1)" "(oid, ''order_paid'') \<in> set (dispatchRows (ledger w1))"
    by (simp_all add: w1_def up)
  \<comment> \<open>pause\<close>
  define u2 where "u2 = noUpdate\<lparr>setOrderStatus := Some PAUSED\<rparr>"
  define ord2 where "ord2 = applyUpdate u2 ord1"
  define w2 where "w2 = w1\<lparr>orderTable := order_update (orderTable w1) oid u2\<rparr>"
  have s2: "PATCH env t2 (?r ''pause_delivery'') w1 = (Success ord2, w2)"
    unfolding ord2_def w2_def
    by (rule paid_step_again [OF f1 courier _ _ p1(2) l1])
       (simp_all add: UpdateOrderStatusSchema_def switchAction_def courier p1 u2_def)
  have f2: "order_findUnique (orderTable w2) oid = Some ord2"
    unfolding w2_def ord2_def using order_findUnique_update [OF f1] by simp
  have p2: "orderStatus ord2 = PAUSED" "paymentStatus ord2 = PAID"
    by (simp_all add: ord2_def u2_def applyUpdate_def noUpdate_def p1)
  have l2: "reachable (ledger w2)" "(oid, ''order_paid'') \<in> set (dispatchRows (ledger w2))"
    using l1 by (simp_all add: w2_def)
  \<comment> \<open>resume\<close>
  define u3 where "u3 = noUpdate\<lparr>setOrderStatus := Some IN_DELIVERY\<rparr>"
  define ord3 where "ord3 = applyUpdate u3 ord2"
  define w3 where "w3 = w2\<lparr>orderTable := order_update (orderTable w2) oid u3\<rparr>"
  have s3: "PATCH env t3 (?r ''resume_delivery'') w2 = (Success ord3, w3)"
    unfolding ord3_def w3_def
    by (rule paid_step_again [OF f2 courier _ _ p2(2) l2])
       (simp_all add: UpdateOrderStatusSchema_def switchAction_def courier p2 u3_def)
  have f3: "order_findUnique (orderTable w3) oid = Some ord3"
    unfolding w3_def ord3_def using order_findUnique_update [OF f2] by simp
  have p3: "orderStatus ord3 = IN_DELIVERY" "paymentStatus ord3 = PAID"
    by (simp_all add: ord3_def u3_def applyUpdate_def noUpdate_def p2)
  have l3: "reachable (ledger w3)" "(oid, ''order_paid'') \<in> set (dispatchRows (ledger w3))"
    using l2 by (simp_all add: w3_def)
  \<comment> \<open>complete\<close>
  define u4 where "u4 = noUpdate\<lparr>setOrderStatus := Some DELIVERED, setDeliveredAt := Some t4\<rparr>"
  define ord4 where "ord4 = applyUpdate u4 ord3"
  define w4 where "w4 = w3\<lparr>orderTable := order_update (orderTable w3) oid u4\<rparr>"
  have s4: "PATCH env t4 (?r ''complete_delivery'') w3 = (Success ord4, w4)"
    unfolding ord4_def w4_def
    by (rule paid_step_again [OF f3 courier _ _ p3(2) l3])
       (simp_all add: UpdateOrderStatusSchema_def switchAction_def courier u4_def)
  have f4: "order_findUnique (orderTable w4) oid = Some ord4"
    unfolding w4_def ord4_def using order_findUnique_update [OF f3] by simp
  have p4: "orderStatus ord4 = DELIVERED" "paymentStatus ord4 = PAID"
    by (simp_all add: ord4_def u4_def applyUpdate_def noUpdate_def p3)
  have l4: "reachable (ledger w4)" "(oid, ''order_paid'') \<in> set (dispatchRows (ledger w4))"
    using l3 by (simp_all add: w4_def)
  have v4: "sent w4 = ?S" "dispatchRows (ledger w4) = dispatchRows (ledger w) @ [(oid, ''order_paid'')]"
    by (simp_all add: w4_def w3_def w2_def w1_def)
  \<comment> \<open>the replay\<close>
  define u5 where "u5 = noUpdate\<lparr>setOrderStatus := Some DELIVERED, setDeliveredAt := Some t5\<rparr>"
  have s5: "PATCH env t5 (?r ''complete_delivery'') w4
              = (Success (applyUpdate u5 ord4), w4\<lparr>orderTable := order_update (orderTable w4) oid u5\<rparr>)"
    by (rule paid_step_again [OF f4 courier _ _ p4(2) l4])
       (simp_all add: UpdateOrderStatusSchema_def switchAction_def courier u5_def)
  show ?thesis
    by (simp add: s1 s2 s3 s4 s5 p1 p2 p3 p4 v4)
qed

text \<open>
  Claim C5. A courier takes a cash order from \<open>PENDING\<close> through \<open>IN_DELIVERY\<close>, \<open>PAUSED\<close>
  and \<open>IN_DELIVERY\<close> to \<open>DELIVERED\<close>, the requests being handled one after the other; the
  ledger is reachable and has no \<open>order_paid\<close> row for the order. Then the four requests
  succeed with these states; over the four requests each configured endpoint is called
  exactly once (whether or not the calls resolve) and the \<open>order_paid\<close> row is recorded;
  for an unpaid order the first three requests make no outbound call, so the calls are
  those of \<open>complete_delivery\<close>; and a fifth request repeating \<open>complete_delivery\<close> makes
  no outbound call.
\<close>

theorem order_paid_dispatched_once:
  assumes found: "order_findUnique (orderTable w) oid = Some ord"
    and pending: "orderStatus ord = PENDING"
    and cash: "paymentMethod ord = CASH"
    and up: "reachable (ledger w)"
    and fresh: "(oid, ''order_paid'') \<notin> set (dispatchRows (ledger w))"
    and courier: "role usr = ''COURIER''"
  shows "map (\<lambda>response. case response of Success ord' \<Rightarrow> Some (orderStatus ord') | _ \<Rightarrow> None)
           (fst (PATCHSeq env
              [(t1, \<lparr>user = Some usr, orderIdParam = oid, body = Action ''start_delivery''\<rparr>),
               (t2, \<lparr>user = Some usr, orderIdParam = oid, body = Action ''pause_delivery''\<rparr>),
               (t3, \<lparr>user = Some usr, orderIdParam = oid, body = Action ''resume_delivery''\<rparr>),
               (t4, \<lparr>user = Some usr, orderIdParam = oid, body = Action ''complete_delivery''\<rparr>)] w))
         = [Some IN_DELIVERY, Some PAUSED, Some IN_DELIVERY, Some DELIVERED]
    \<and> (paymentStatus ord = UNPAID \<longrightarrow>
        sent (snd (PATCHSeq env
              [(t1, \<lparr>user = Some usr, orderIdParam = oid, body = Action ''start_delivery''\<rparr>),
               (t2, \<lparr>user = Some usr, orderIdParam = oid, body = Action ''pause_delivery''\<rparr>),
               (t3, \<lparr>user = Some usr, orderIdParam = oid, body = Action ''resume_delivery''\<rparr>)] w))
         = sent w)
    \<and> sent (snd (PATCHSeq env
              [(t1, \<lparr>user = Some usr, orderIdParam = oid, body = Action ''start_delivery''\<rparr>),
               (t2, \<lparr>user = Some usr, orderIdParam = oid, body = Action ''pause_delivery''\<rparr>),
               (t3, \<lparr>user = Some usr, orderIdParam = oid, body = Action ''resume_delivery''\<rparr>),
               (t4, \<lparr>user = Some usr, orderIdParam = oid, body = Action ''complete_delivery''\<rparr>)] w))
         = sent w
           @ (if falsy (GA4_MEASUREMENT_ID env) \<or> falsy (GA4_API_SECRET env) then [] else [GA4Collect oid])
           @ (if falsy (META_PIXEL_ID env) \<or> falsy (META_ACCESS_TOKEN env) then [] else [MetaEvents oid])
    \<and> dispatchRows (ledger (snd (PATCHSeq env
              [(t1, \<lparr>user = Some usr, orderIdParam = oid, body = Action ''start_delivery''\<rparr>),
               (t2, \<lparr>user = Some usr, orderIdParam = oid, body = Action ''pause_delivery''\<rparr>),
               (t3, \<lparr>user = Some usr, orderIdParam = oid, body = Action ''resume_delivery''\<rparr>),
               (t4, \<lparr>user = Some usr, orderIdParam = oid, body = Action ''complete_delivery''\<rparr>)] w)))
         = dispatchRows (ledger w) @ [(oid, ''order_paid'')]
    \<and> sent (snd (PATCHSeq env
              [(t1, \<lparr>user = Some usr, orderIdParam = oid, body = Action ''start_delivery''\<rparr>),
               (t2, \<lparr>user = Some usr, orderIdParam = oid, body = Action ''pause_delivery''\<rparr>),
               (t3, \<lparr>user = Some usr, orderIdParam = oid, body = Action ''resume_delivery''\<rparr>),
               (t4, \<lparr>user = Some usr, orderIdParam = oid, body = Action ''complete_delivery''\<rparr>),
               (t5, \<lparr>user = Some usr, orderIdParam = oid, body = Action ''complete_delivery''\<rparr>)] w))
         = sent (snd (PATCHSeq env
              [(t1, \<lparr>user = Some usr, orderIdParam = oid, body = Action ''start_delivery''\<rparr>),
               (t2, \<lparr>user = Some usr, orderIdParam = oid, body = Action ''pause_delivery''\<rparr>),
               (t3, \<lparr>user = Some usr, orderIdParam = oid, body = Action ''resume_delivery''\<rparr>),
               (t4, \<lparr>user = Some usr, orderIdParam = oid, body = Action ''complete_delivery''\<rparr>)] w))"
proof (cases "paymentStatus ord")
  case UNPAID
  show ?thesis
    using order_paid_once_unpaid [OF found pending UNPAID cash up fresh courier, of env t1 t2 t3 t4 t5]
    by blast
next
  case PAID
  show ?thesis
    using order_paid_once_paid [OF found pending PAID cash up fresh courier, of env t1 t2 t3 t4 t5] PAID
    by simp
qed

theorem order_paid_dispatched_once_witness:
  "order_findUnique (orderTable (exampleWorld PENDING)) ''ord1'' = Some (exampleOrder PENDING)
   \<and> orderStatus (exampleOrder PENDING) = PENDING
   \<and> paymentStatus (exampleOrder PENDING) = UNPAID
   \<and> paymentMethod (exampleOrder PENDING) = CASH
   \<and> reachable (ledger (exampleWorld PENDING))
   \<and> (''ord1'', ''order_paid'') \<notin> set (dispatchRows (ledger (exampleWorld PENDING)))
   \<and> role \<lparr>user_id = ''courier1'', role = ''COURIER''\<rparr> = ''COURIER''
   \<and> sent (snd (PATCHSeq exampleAnalyticsEnv
              [(1, courierRequest ''start_delivery''), (2, courierRequest ''pause_delivery''),
               (3, courierRequest ''resume_delivery'')]
              (exampleWorld PENDING)))
       = []
   \<and> sent (snd (PATCHSeq exampleAnalyticsEnv
              [(1, courierRequest ''start_delivery''), (2, courierRequest ''pause_delivery''),
               (3, courierRequest ''resume_delivery''), (4, courierRequest ''complete_delivery'')]
              (exampleWorld PENDING)))
       = [GA4Collect ''ord1'', MetaEvents ''ord1'']
   \<and> sent (snd (PATCHSeq exampleAnalyticsEnv
              [(1, courierRequest ''start_delivery''), (2, courierRequest ''pause_delivery''),
               (3, courierRequest ''resume_delivery''), (4, courierRequest ''complete_delivery''),
               (5, courierRequest ''complete_delivery'')]
              (exampleWorld PENDING)))
       = [GA4Collect ''ord1'', MetaEvents ''ord1'']"
proof -
  have h1: "order_findUnique (orderTable (exampleWorld PENDING)) ''ord1'' = Some (exampleOrder PENDING)"
    by (simp add: order_findUnique_def exampleWorld_def exampleOrder_def)
  have h2: "orderStatus (exampleOrder PENDING) = PENDING"
    and h3: "paymentStatus (exampleOrder PENDING) = UNPAID"
    and h4: "paymentMethod (exampleOrder PENDING) = CASH"
    by (simp_all add: exampleOrder_def)
  have h5: "reachable (ledger (exampleWorld PENDING))"
    and h6: "(''ord1'', ''order_paid'') \<notin> set (dispatchRows (ledger (exampleWorld PENDING)))"
    by (simp_all add: exampleWorld_def)
  have h7: "role \<lparr>user_id = ''courier1'', role = ''COURIER''\<rparr> = ''COURIER''"
    by simp
  have s0: "sent (exampleWorld PENDING) = []"
    by (simp add: exampleWorld_def)
  have e: "\<not> falsy (GA4_MEASUREMENT_ID exampleAnalyticsEnv)" "\<not> falsy (GA4_API_SECRET exampleAnalyticsEnv)"
    "\<not> falsy (META_PIXEL_ID exampleAnalyticsEnv)" "\<not> falsy (META_ACCESS_TOKEN exampleAnalyticsEnv)"
    by (simp_all add: falsy_def exampleAnalyticsEnv_def)
  note t = order_paid_dispatched_once [OF h1 h2 h4 h5 h6 h7, of exampleAnalyticsEnv 1 2 3 4 5]
  show ?thesis
    using h1 h2 h3 h4 h5 h6 t e s0 unfolding courierRequest_def by simp
qed

section \<open>Properties of the event dispatch ledger\<close>

text \<open>
  Claim C6. The ledger operations never abort the caller. Whenever the store read fails,
  \<open>hasDispatched\<close> returns false; whenever the insert fails, \<open>markDispatched\<close> returns
  normally and leaves the ledger as it was; an insert for a key that is already recorded
  fails with a uniqueness violation and is such a no-op. Neither function ever ends in an
  exception.
\<close>

theorem ledger_best_effort:
  "(\<forall>e. eventDispatch_findUnique ldg orderId eventName = Inl e \<longrightarrow>
        hasDispatched ldg orderId eventName = Inr False)
   \<and> (\<forall>e. eventDispatch_create ldg orderId eventName = Inl e \<longrightarrow>
        markDispatched ldg orderId eventName = Inr ldg)
   \<and> (reachable ldg \<and> (orderId, eventName) \<in> set (dispatchRows ldg) \<longrightarrow>
        eventDispatch_create ldg orderId eventName = Inl UniqueConstraintViolation
        \<and> markDispatched ldg orderId eventName = Inr ldg)
   \<and> (\<exists>b. hasDispatched ldg orderId eventName = Inr b)
   \<and> (\<exists>ldg'. markDispatched ldg orderId eventName = Inr ldg')"
  by (auto simp add: hasDispatched_def markDispatched_def eventDispatch_create_def
        eventDispatch_findUnique_def split: sum.splits)

theorem ledger_best_effort_witness:
  "eventDispatch_findUnique \<lparr>reachable = False, dispatchRows = []\<rparr> ''o1'' ''order_paid'' = Inl StoreUnavailable
   \<and> hasDispatched \<lparr>reachable = False, dispatchRows = []\<rparr> ''o1'' ''order_paid'' = Inr False
   \<and> eventDispatch_create \<lparr>reachable = False, dispatchRows = []\<rparr> ''o1'' ''order_paid'' = Inl StoreUnavailable
   \<and> markDispatched \<lparr>reachable = False, dispatchRows = []\<rparr> ''o1'' ''order_paid''
       = Inr \<lparr>reachable = False, dispatchRows = []\<rparr>
   \<and> reachable \<lparr>reachable = True, dispatchRows = [(''o1'', ''order_paid'')]\<rparr>
   \<and> (''o1'', ''order_paid'') \<in> set (dispatchRows \<lparr>reachable = True, dispatchRows = [(''o1'', ''order_paid'')]\<rparr>)
   \<and> eventDispatch_create \<lparr>reachable = True, dispatchRows = [(''o1'', ''order_paid'')]\<rparr> ''o1'' ''order_paid''
       = Inl UniqueConstraintViolation
   \<and> markDispatched \<lparr>reachable = True, dispatchRows = [(''o1'', ''order_paid'')]\<rparr> ''o1'' ''order_paid''
       = Inr \<lparr>reachable = True, dispatchRows = [(''o1'', ''order_paid'')]\<rparr>"
proof -
  have a: "eventDispatch_findUnique \<lparr>reachable = False, dispatchRows = []\<rparr> ''o1'' ''order_paid'' = Inl StoreUnavailable"
    by (simp add: eventDispatch_findUnique_def)
  have b: "eventDispatch_create \<lparr>reachable = False, dispatchRows = []\<rparr> ''o1'' ''order_paid'' = Inl StoreUnavailable"
    by (simp add: eventDispatch_create_def)
  have c: "reachable \<lparr>reachable = True, dispatchRows = [(''o1'', ''order_paid'')]\<rparr>
     \<and> (''o1'', ''order_paid'') \<in> set (dispatchRows \<lparr>reachable = True, dispatchRows = [(''o1'', ''order_paid'')]\<rparr>)"
    by simp
  show ?thesis
    using a b c
      ledger_best_effort [of "\<lparr>reachable = False, dispatchRows = []\<rparr>" "''o1''" "''order_paid''"]
      ledger_best_effort [of "\<lparr>reachable = True, dispatchRows = [(''o1'', ''order_paid'')]\<rparr>" "''o1''" "''order_paid''"]
    by blast
qed

end
